theory Spec2Isabelle
  imports Complex_Main
begin

section \<open>The NOAA weather cleaning pipeline of clean\_data.py\<close>

text \<open>
  The program is one function, \<open>main\<close>, a fixed sequence of pandas calls on one table,
  and the helper \<open>tryconvert\<close>. The embedding follows the script line by line. The
  pandas and NumPy calls are modelled by what they do to a table held column by column,
  with the defaults of the calls as the script makes them (in-place replacement on a
  column, \<open>resample\<close> closed and labelled on the left, \<open>last\<close> skipping missing values,
  \<open>interpolate\<close> forward and without limit); every exception the script can raise is a
  value of \<open>exn\<close>.
\<close>

subsection \<open>Values\<close>

text \<open>
  A \<open>np.float64\<close>. The special values are kept apart because the script's comparisons
  and fills treat them apart: \<open>NaN\<close> is pandas' missing marker, and the two infinities
  are what \<open>np.float64('inf')\<close> yields. A finite double is the real number it denotes
  (\<open>Fin\<close>): comparisons of doubles are exact, and arithmetic is taken without rounding.
\<close>

datatype f64 = NaN | NInf | Fin real | PInf

text \<open>
  A cell as \<open>read_csv\<close> leaves it: text, an \<open>int64\<close> of a column of whole numbers, or
  a double (an empty cell is \<open>Flt NaN\<close>).
\<close>

datatype cell = Str string | I64 int | Flt f64

datatype exn =
  FileNotFoundError | ParserError | ValueError | KeyError | AttributeError | IndexError

text \<open>Timestamps of the \<open>DatetimeIndex\<close>, counted in seconds.\<close>

type_synonym timestamp = int

text \<open>
  A \<open>DataFrame\<close>: the index and the named columns, in column order. pandas keeps every
  column as long as the index (\<open>rectangular\<close>).
\<close>

record 'a frame =
  index :: "timestamp list"
  columns :: "(string \<times> 'a list) list"


record args =
  filepath :: string
  verbose :: bool

subsection \<open>Exceptions\<close>

definition and_then :: "exn + 'a \<Rightarrow> ('a \<Rightarrow> exn + 'b) \<Rightarrow> exn + 'b" where
  "and_then m f = (case m of Inl e \<Rightarrow> Inl e | Inr x \<Rightarrow> f x)"

fun traverse :: "('a \<Rightarrow> exn + 'b) \<Rightarrow> 'a list \<Rightarrow> exn + 'b list" where
  "traverse f [] = Inr []"
| "traverse f (x # xs) =
     (case f x of Inl e \<Rightarrow> Inl e
      | Inr y \<Rightarrow> (case traverse f xs of Inl e \<Rightarrow> Inl e | Inr ys \<Rightarrow> Inr (y # ys)))"

subsection \<open>Arithmetic and comparison of doubles\<close>

definition isna :: "f64 \<Rightarrow> bool" where
  "isna x = (x = NaN)"

text \<open>\<open><\<close> and \<open>==\<close> of IEEE 754: every comparison with NaN is false.\<close>

fun f_less :: "f64 \<Rightarrow> f64 \<Rightarrow> bool" where
  "f_less NaN _ = False"
| "f_less _ NaN = False"
| "f_less (Fin a) (Fin b) = (a < b)"
| "f_less PInf _ = False"
| "f_less _ NInf = False"
| "f_less NInf _ = True"
| "f_less _ PInf = True"

fun f_eq :: "f64 \<Rightarrow> f64 \<Rightarrow> bool" where
  "f_eq NaN _ = False"
| "f_eq _ NaN = False"
| "f_eq x y = (x = y)"

fun f_neg :: "f64 \<Rightarrow> f64" where
  "f_neg NaN = NaN"
| "f_neg NInf = PInf"
| "f_neg (Fin a) = Fin (- a)"
| "f_neg PInf = NInf"

fun f_add :: "f64 \<Rightarrow> f64 \<Rightarrow> f64" where
  "f_add (Fin a) (Fin b) = Fin (a + b)"
| "f_add NaN _ = NaN"
| "f_add _ NaN = NaN"
| "f_add PInf NInf = NaN"
| "f_add NInf PInf = NaN"
| "f_add PInf _ = PInf"
| "f_add _ PInf = PInf"
| "f_add NInf _ = NInf"
| "f_add _ NInf = NInf"

definition f_sub :: "f64 \<Rightarrow> f64 \<Rightarrow> f64" where
  "f_sub x y = f_add x (f_neg y)"

text \<open>The sign of a non-NaN value, for the products and quotients of infinities.\<close>

fun f_sign :: "f64 \<Rightarrow> int" where
  "f_sign NaN = 0"
| "f_sign NInf = - 1"
| "f_sign (Fin a) = (if a < 0 then - 1 else if a = 0 then 0 else 1)"
| "f_sign PInf = 1"

definition signed_inf :: "int \<Rightarrow> f64" where
  "signed_inf s = (if s = 0 then NaN else if 0 < s then PInf else NInf)"

fun f_mul :: "f64 \<Rightarrow> f64 \<Rightarrow> f64" where
  "f_mul (Fin a) (Fin b) = Fin (a * b)"
| "f_mul NaN _ = NaN"
| "f_mul _ NaN = NaN"
| "f_mul x y = signed_inf (f_sign x * f_sign y)"

text \<open>Division; a zero divisor counts as \<open>+0\<close>.\<close>

fun f_div :: "f64 \<Rightarrow> f64 \<Rightarrow> f64" where
  "f_div (Fin a) (Fin b) = (if b = 0 then signed_inf (f_sign (Fin a)) else Fin (a / b))"
| "f_div NaN _ = NaN"
| "f_div _ NaN = NaN"
| "f_div (Fin a) _ = Fin 0"
| "f_div x (Fin b) = signed_inf (f_sign x * (if b < 0 then - 1 else 1))"
| "f_div _ _ = NaN"

fun np_sin :: "f64 \<Rightarrow> f64" where
  "np_sin (Fin a) = Fin (sin a)"
| "np_sin _ = NaN"

fun np_cos :: "f64 \<Rightarrow> f64" where
  "np_cos (Fin a) = Fin (cos a)"
| "np_cos _ = NaN"

subsection \<open>Columns of a table\<close>

text \<open>\<open>df[name]\<close>: the column, or KeyError.\<close>

definition getcol :: "string \<Rightarrow> 'a frame \<Rightarrow> exn + 'a list" where
  "getcol name df =
     (case map_of (columns df) name of None \<Rightarrow> Inl KeyError | Some c \<Rightarrow> Inr c)"

text \<open>\<open>df[name] = values\<close>: overwrites the column in place, or appends a new last one.\<close>

definition setcol :: "string \<Rightarrow> 'a list \<Rightarrow> 'a frame \<Rightarrow> 'a frame" where
  "setcol name vs df =
     (if name \<in> set (map fst (columns df))
      then df\<lparr>columns := map (\<lambda>(n, c). if n = name then (n, vs) else (n, c)) (columns df)\<rparr>
      else df\<lparr>columns := columns df @ [(name, vs)]\<rparr>)"

text \<open>\<open>df.drop([name], axis=1)\<close>: KeyError when there is no such column.\<close>

definition dropcol :: "string \<Rightarrow> 'a frame \<Rightarrow> exn + 'a frame" where
  "dropcol name df =
     (if name \<in> set (map fst (columns df))
      then Inr (df\<lparr>columns := filter (\<lambda>(n, c). n \<noteq> name) (columns df)\<rparr>)
      else Inl KeyError)"

text \<open>An operation that pandas applies to every column alike.\<close>

definition map_cols :: "('a list \<Rightarrow> 'b list) \<Rightarrow> 'a frame \<Rightarrow> 'b frame" where
  "map_cols f df = \<lparr>index = index df, columns = map (\<lambda>(n, c). (n, f c)) (columns df)\<rparr>"

subsection \<open>Lines 17 to 25: tryconvert\<close>

text \<open>
  The double nearest to a whole number: up to 53 bits it is the number itself, beyond
  that the low bits (\<open>excess_bits\<close> of them) are rounded off, a tie going to the even
  neighbour.
\<close>

function excess_bits :: "nat \<Rightarrow> nat" where
  "excess_bits n = (if n < 2 ^ 53 then 0 else Suc (excess_bits (n div 2)))"
  by pat_completeness auto
termination
  by (relation "measure (\<lambda>n. n)") auto

declare excess_bits.simps [simp del]

definition round_to_53 :: "nat \<Rightarrow> nat" where
  "round_to_53 n =
     (let e = excess_bits n; q = n div 2 ^ e; r = n mod 2 ^ e in
      if 2 ^ e < 2 * r \<or> (2 ^ e = 2 * r \<and> odd q) then (q + 1) * 2 ^ e else q * 2 ^ e)"

definition f64_of_int :: "int \<Rightarrow> f64" where
  "f64_of_int i = Fin (real_of_int (sgn i * int (round_to_53 (nat \<bar>i\<bar>))))"

text \<open>
  \<open>np.float64(value)\<close>: a double is taken as it is, an \<open>int64\<close> is rounded to the
  nearest double, and text goes through NumPy's text-to-double parser, which is not code
  of this repository and is a parameter (\<open>parse\<close>): it returns the double or raises.
\<close>

definition np_float64 :: "(string \<Rightarrow> exn + f64) \<Rightarrow> cell \<Rightarrow> exn + f64" where
  "np_float64 parse v =
     (case v of Flt x \<Rightarrow> Inr x | I64 i \<Rightarrow> Inr (f64_of_int i) | Str s \<Rightarrow> parse s)"

text \<open>The bare \<open>except:\<close> catches whatever the constructor raises.\<close>

definition tryconvert :: "(string \<Rightarrow> exn + f64) \<Rightarrow> cell \<Rightarrow> exn + f64" where
  "tryconvert parse v =
     (case np_float64 parse v of Inr x \<Rightarrow> Inr x | Inl e \<Rightarrow> Inr NaN)"

subsection \<open>Lines 30 to 47: ingestion\<close>

definition import_columns :: "string list" where
  "import_columns =
     [''DATE'', ''HOURLYVISIBILITY'', ''HOURLYDRYBULBTEMPF'', ''HOURLYWETBULBTEMPF'',
      ''HOURLYDewPointTempF'', ''HOURLYRelativeHumidity'', ''HOURLYWindSpeed'',
      ''HOURLYWindDirection'', ''HOURLYStationPressure'', ''HOURLYPressureTendency'',
      ''HOURLYSeaLevelPressure'', ''HOURLYPrecip'', ''HOURLYAltimeterSetting'']"

text \<open>
  The file system is a parameter: \<open>fs path\<close> is the file as pandas parses it, with the
  parsed \<open>DATE\<close> column already as the index (lines 46 and 47), or the exception that
  reading or date parsing raises. \<open>usecols\<close> raises ValueError when a wanted column is
  not in the file, and keeps only the wanted ones, in the file's order.
\<close>

definition read_csv :: "(string \<Rightarrow> exn + cell frame) \<Rightarrow> string \<Rightarrow> string list \<Rightarrow> exn + cell frame" where
  "read_csv fs path usecols =
     and_then (fs path) (\<lambda>df.
       if list_all (\<lambda>n. n \<in> set (map fst (columns df))) (remove1 ''DATE'' usecols)
       then Inr (df\<lparr>columns := filter (\<lambda>(n, c). n \<in> set usecols) (columns df)\<rparr>)
       else Inl ValueError)"

subsection \<open>Lines 49 to 54: sentinels and malformed precipitation\<close>

text \<open>Line 50: a cell that is exactly \<open>*\<close> becomes missing, in every column.\<close>

definition replace_star :: "cell frame \<Rightarrow> cell frame" where
  "replace_star df = map_cols (map (\<lambda>c. if c = Str ''*'' then Flt NaN else c)) df"

text \<open>
  \<open>Series.str.count\<close>: the \<open>.str\<close> accessor raises AttributeError on a column that
  holds no text (pandas parsed it as a float column); in a text column the count of a
  cell that is not text is missing.
\<close>

definition str_count :: "char \<Rightarrow> cell list \<Rightarrow> exn + f64 list" where
  "str_count ch col =
     (if col = [] \<or> list_ex (\<lambda>c. case c of Str s \<Rightarrow> True | _ \<Rightarrow> False) col
      then Inr (map (\<lambda>c. case c of Str s \<Rightarrow> Fin (real (count_list s ch)) | _ \<Rightarrow> NaN) col)
      else Inl AttributeError)"

text \<open>Lines 52 and 54, on the precipitation column.\<close>

definition normalize_precip :: "cell frame \<Rightarrow> exn + cell frame" where
  "normalize_precip df =
     and_then (getcol ''HOURLYPrecip'' df) (\<lambda>col.
       let traced = map (\<lambda>c. if c = Str ''T'' then Str ''0.00'' else c) col in
       and_then (str_count CHR ''.'' traced) (\<lambda>counts.
         Inr (setcol ''HOURLYPrecip''
               (map (\<lambda>(n, c). if f_less (Fin 1) n then Flt NaN else c) (zip counts traced))
               df)))"

subsection \<open>Lines 56 to 61: conversion and the visibility bounds\<close>

text \<open>Lines 57 and 58: \<open>tryconvert\<close> on every cell of every column.\<close>

definition to_float :: "(string \<Rightarrow> exn + f64) \<Rightarrow> cell frame \<Rightarrow> exn + f64 frame" where
  "to_float parse df =
     and_then (traverse (\<lambda>(n, c). and_then (traverse (tryconvert parse) c) (\<lambda>c'. Inr (n, c')))
                 (columns df))
       (\<lambda>cs. Inr \<lparr>index = index df, columns = cs\<rparr>)"

definition null_visibility :: "f64 frame \<Rightarrow> exn + f64 frame" where
  "null_visibility df =
     and_then (getcol ''HOURLYVISIBILITY'' df) (\<lambda>col.
       Inr (setcol ''HOURLYVISIBILITY''
             (map (\<lambda>v. if f_less (Fin 10) v \<or> f_less v (Fin 0) then NaN else v) col) df))"

subsection \<open>Line 64: hourly resampling and the shift\<close>

definition hour_of :: "timestamp \<Rightarrow> int" where
  "hour_of t = t div 3600"

text \<open>The hourly bins from the first to the last hour that has a row.\<close>

definition bins :: "timestamp list \<Rightarrow> int list" where
  "bins ts = (if ts = [] then [] else [hour_of (Min (set ts)) .. hour_of (Max (set ts))])"

text \<open>
  The cells of one column that fall into hour \<open>h\<close>, in time order: the resampler sorts
  the rows by timestamp with a stable sort.
\<close>

definition in_bin :: "timestamp list \<Rightarrow> 'a list \<Rightarrow> int \<Rightarrow> 'a list" where
  "in_bin ts col h = map snd (filter (\<lambda>(t, v). hour_of t = h) (sort_key fst (zip ts col)))"

text \<open>\<open>last()\<close> of a group: the last value that is not missing, missing when there is none.\<close>

definition last_valid :: "f64 list \<Rightarrow> f64" where
  "last_valid vs = (case filter (\<lambda>v. \<not> isna v) vs of [] \<Rightarrow> NaN | w # ws \<Rightarrow> last (w # ws))"

definition resample_last :: "f64 frame \<Rightarrow> f64 frame" where
  "resample_last df =
     \<lparr>index = map (\<lambda>h. h * 3600) (bins (index df)),
      columns = map (\<lambda>(n, c). (n, map (\<lambda>h. last_valid (in_bin (index df) c h)) (bins (index df))))
                  (columns df)\<rparr>"

text \<open>\<open>shift(periods=1)\<close>: the index stays, every column moves down one row.\<close>

definition shift_col :: "f64 list \<Rightarrow> f64 list" where
  "shift_col c = (if c = [] then [] else NaN # butlast c)"

definition shift1 :: "f64 frame \<Rightarrow> f64 frame" where
  "shift1 df = map_cols shift_col df"

subsection \<open>Lines 66 to 69: filling gaps, dropping the first row\<close>

text \<open>\<open>fillna(method='ffill')\<close>, with the last value seen so far.\<close>

fun ffill_from :: "f64 \<Rightarrow> f64 list \<Rightarrow> f64 list" where
  "ffill_from prev [] = []"
| "ffill_from prev (x # xs) =
     (if isna x then prev # ffill_from prev xs else x # ffill_from x xs)"

definition ffill :: "f64 list \<Rightarrow> f64 list" where
  "ffill c = ffill_from NaN c"

text \<open>
  \<open>np.interp\<close> at row \<open>x\<close> over the sample points (row number, value), in ascending
  order of row: the first point's value to its left, the last point's value from it on,
  and between two neighbours \<open>slope * (x - x0) + y0\<close>. When that is NaN (an infinite end
  point), NumPy tries the line from the right end point, \<open>slope * (x - x1) + y1\<close>, and
  when that is NaN too and the end points are equal it takes their value.
\<close>

definition lerp :: "nat \<Rightarrow> f64 \<Rightarrow> nat \<Rightarrow> f64 \<Rightarrow> nat \<Rightarrow> f64" where
  "lerp x0 y0 x1 y1 x =
     (let slope = f_div (f_sub y1 y0) (Fin (real x1 - real x0));
          res = f_add (f_mul slope (Fin (real x - real x0))) y0
      in if isna res
         then (let res' = f_add (f_mul slope (Fin (real x - real x1))) y1
               in if isna res' \<and> f_eq y0 y1 then y0 else res')
         else res)"

fun np_interp :: "nat \<Rightarrow> nat \<times> f64 \<Rightarrow> (nat \<times> f64) list \<Rightarrow> f64" where
  "np_interp x (x0, y0) [] = y0"
| "np_interp x (x0, y0) ((x1, y1) # ps) =
     (if x \<le> x0 then y0
      else if x < x1 then lerp x0 y0 x1 y1 x
      else np_interp x (x1, y1) ps)"

text \<open>
  \<open>interpolate(method='linear')\<close> on one column, with pandas' defaults (forward
  direction, no limit): the rows are numbered 0, 1, 2, ...; a column with no valid value
  is left alone; a missing value before the first valid one stays missing; every other
  missing value is \<open>np.interp\<close> of its row number over the valid rows.
\<close>

definition interpolate_linear :: "f64 list \<Rightarrow> f64 list" where
  "interpolate_linear c =
     (case filter (\<lambda>(i, v). \<not> isna v) (enumerate 0 c) of
        [] \<Rightarrow> c
      | p # ps \<Rightarrow>
          map (\<lambda>(i, v). if \<not> isna v then v else if i < fst p then NaN else np_interp i p ps)
            (enumerate 0 c))"

text \<open>Lines 67 and 68.\<close>

definition fill_gaps :: "f64 frame \<Rightarrow> exn + f64 frame" where
  "fill_gaps df =
     and_then (getcol ''HOURLYPressureTendency'' df) (\<lambda>col.
       Inr (map_cols interpolate_linear (setcol ''HOURLYPressureTendency'' (ffill col) df)))"

text \<open>
  Line 69: \<open>index[0]\<close> raises IndexError on an empty table; \<open>drop\<close> removes every row
  that carries that label.
\<close>

definition drop_first :: "'a frame \<Rightarrow> exn + 'a frame" where
  "drop_first df =
     (case index df of
        [] \<Rightarrow> Inl IndexError
      | t0 # ts \<Rightarrow>
          Inr \<lparr>index = filter (\<lambda>t. t \<noteq> t0) (index df),
               columns = map (\<lambda>(n, c). (n, map snd (filter (\<lambda>(t, v). t \<noteq> t0) (zip (index df) c))))
                           (columns df)\<rparr>)"

subsection \<open>Lines 71 to 83: the derived features\<close>

definition to_radians :: "f64 \<Rightarrow> f64" where
  "to_radians x = f_mul x (Fin (2 * pi / 360))"

definition encode_wind :: "f64 frame \<Rightarrow> exn + f64 frame" where
  "encode_wind df =
     and_then (getcol ''HOURLYWindDirection'' df) (\<lambda>c.
       let df1 = setcol ''HOURLYWindDirectionSin'' (map (\<lambda>x. np_sin (to_radians x)) c) df in
       and_then (getcol ''HOURLYWindDirection'' df1) (\<lambda>c1.
         let df2 = setcol ''HOURLYWindDirectionCos'' (map (\<lambda>x. np_cos (to_radians x)) c1) df1 in
         dropcol ''HOURLYWindDirection'' df2))"

text \<open>
  Python's \<open>x in [a, b, ...]\<close> on a float: equal to one of the elements (a NaN is equal to
  none).
\<close>

definition py_in :: "f64 \<Rightarrow> real list \<Rightarrow> bool" where
  "py_in x es = list_ex (\<lambda>e. f_eq x (Fin e)) es"

definition tendency_incr :: "f64 \<Rightarrow> f64" where
  "tendency_incr x = (if py_in x [0, 1, 2, 3] then Fin 1 else Fin 0)"

definition tendency_decr :: "f64 \<Rightarrow> f64" where
  "tendency_decr x = (if py_in x [5, 6, 7, 8] then Fin 1 else Fin 0)"

definition tendency_cons :: "f64 \<Rightarrow> f64" where
  "tendency_cons x = (if f_eq x (Fin 4) then Fin 1 else Fin 0)"

text \<open>
  Lines 77 to 83. The casts to \<open>float32\<close> of lines 81 to 83 leave the values 0.0 and 1.0
  as they are.
\<close>

definition encode_tendency :: "f64 frame \<Rightarrow> exn + f64 frame" where
  "encode_tendency df =
     and_then (getcol ''HOURLYPressureTendency'' df) (\<lambda>c.
       let df1 = setcol ''HOURLYPressureTendencyIncr'' (map tendency_incr c) df in
       and_then (getcol ''HOURLYPressureTendency'' df1) (\<lambda>c1.
         let df2 = setcol ''HOURLYPressureTendencyDecr'' (map tendency_decr c1) df1 in
         and_then (getcol ''HOURLYPressureTendency'' df2) (\<lambda>c2.
           let df3 = setcol ''HOURLYPressureTendencyCons'' (map tendency_cons c2) df2 in
           dropcol ''HOURLYPressureTendency'' df3)))"

subsection \<open>Lines 85 to 98: the output path, the write and the summary\<close>

text \<open>\<open>str.split(sep)\<close> for a separator of one character.\<close>

fun split_acc :: "char \<Rightarrow> string \<Rightarrow> string \<Rightarrow> string list" where
  "split_acc sep acc [] = [rev acc]"
| "split_acc sep acc (x # xs) =
     (if x = sep then rev acc # split_acc sep [] xs else split_acc sep (x # acc) xs)"

definition split :: "string \<Rightarrow> char \<Rightarrow> string list" where
  "split s sep = split_acc sep [] s"

text \<open>
  Line 86 unpacks the pieces into exactly two names, which raises ValueError for any
  other number of pieces; line 87 uses the first.
\<close>

definition output_path :: "string \<Rightarrow> exn + string" where
  "output_path path =
     (case split path CHR ''.'' of
        [file_name, extension] \<Rightarrow> Inr (file_name @ ''_cleaned.csv'')
      | _ \<Rightarrow> Inl ValueError)"

text \<open>
  What the verbose branch prints. The size in megabytes depends on the interpreter's
  memory layout and is left out of its line.
\<close>

datatype line =
  Banner | Megabytes | Features nat | Observations nat
  | StartDate timestamp | EndDate timestamp | Days int | Months real | Years real

definition round2 :: "real \<Rightarrow> real" where
  "round2 x = real_of_int (round (x * 100)) / 100"

definition head_lines :: "f64 frame \<Rightarrow> line list" where
  "head_lines df =
     [Banner, Megabytes, Features (length (columns df)), Observations (length (index df))]"

text \<open>Lines 94 to 98: \<open>index[0]\<close> and \<open>index[-1]\<close> raise IndexError on a table with no row.\<close>

definition date_lines :: "f64 frame \<Rightarrow> exn + line list" where
  "date_lines df =
     (case index df of
        [] \<Rightarrow> Inl IndexError
      | t0 # ts \<Rightarrow>
          (let days = (last (t0 # ts) - t0) div 86400 in
           Inr [StartDate t0, EndDate (last (t0 # ts)), Days days,
                Months (round2 (real_of_int days / 30)), Years (round2 (real_of_int days / 365))]))"

subsection \<open>main\<close>

text \<open>Lines 45 to 83: the table that line 87 writes.\<close>

definition clean :: "(string \<Rightarrow> exn + cell frame) \<Rightarrow> (string \<Rightarrow> exn + f64) \<Rightarrow> string \<Rightarrow> exn + f64 frame" where
  "clean fs parse path =
     and_then (read_csv fs path import_columns) (\<lambda>df0.
     and_then (normalize_precip (replace_star df0)) (\<lambda>df1.
     and_then (to_float parse df1) (\<lambda>df2.
     and_then (null_visibility df2) (\<lambda>df3.
     and_then (fill_gaps (shift1 (resample_last df3))) (\<lambda>df4.
     and_then (drop_first df4) (\<lambda>df5.
     and_then (encode_wind df5) (\<lambda>df6.
     encode_tendency df6)))))))"

text \<open>
  A run: the file written (path and table), the lines printed, and the exception the run
  ended with, if any. \<open>to_csv\<close> is a function of the path and the table, and the write
  itself is taken to succeed.
\<close>

record run =
  written :: "(string \<times> f64 frame) option"
  printed :: "line list"
  raised :: "exn option"

definition main :: "(string \<Rightarrow> exn + cell frame) \<Rightarrow> (string \<Rightarrow> exn + f64) \<Rightarrow> args \<Rightarrow> run" where
  "main fs parse a =
     (case clean fs parse (filepath a) of
        Inl e \<Rightarrow> \<lparr>written = None, printed = [], raised = Some e\<rparr>
      | Inr data_weather \<Rightarrow>
          (case output_path (filepath a) of
             Inl e \<Rightarrow> \<lparr>written = None, printed = [], raised = Some e\<rparr>
           | Inr out \<Rightarrow>
               if verbose a
               then (case date_lines data_weather of
                       Inl e \<Rightarrow> \<lparr>written = Some (out, data_weather),
                                 printed = head_lines data_weather, raised = Some e\<rparr>
                     | Inr ls \<Rightarrow> \<lparr>written = Some (out, data_weather),
                                  printed = head_lines data_weather @ ls, raised = None\<rparr>)
               else \<lparr>written = Some (out, data_weather), printed = [], raised = None\<rparr>))"

subsection \<open>A worked input\<close>

text \<open>
  A small file for the examples below: five readings, at 00:10, 00:50, 02:20, 03:03 and
  04:05 of the first day, so that the hour from 01:00 has no reading. The parser of the examples
  knows the few literals the file uses and raises ValueError on everything else.
\<close>

definition example_parse :: "string \<Rightarrow> exn + f64" where
  "example_parse s =
     (if s = ''5'' then Inr (Fin 5)
      else if s = ''10'' then Inr (Fin 10)
      else if s = ''12'' then Inr (Fin 12)
      else if s = ''0.00'' then Inr (Fin 0)
      else if s = ''180'' then Inr (Fin 180)
      else if s = ''370'' then Inr (Fin 370)
      else Inl ValueError)"

definition example_table :: "cell frame" where
  "example_table =
     \<lparr>index = [600, 3000, 8400, 10980, 14700],
      columns =
        [(''HOURLYVISIBILITY'', [Str ''*'', Str ''5'', Str ''12'', Flt (Fin 9), Str ''10'']),
         (''HOURLYDRYBULBTEMPF'', [Flt (Fin 30), Flt (Fin 31), Flt (Fin 35), Flt (Fin 36), Flt (Fin 38)]),
         (''HOURLYWETBULBTEMPF'', [Flt (Fin 28), Flt (Fin 29), Flt (Fin 31), Flt (Fin 32), Flt (Fin 33)]),
         (''HOURLYDewPointTempF'', [Flt (Fin 20), Flt (Fin 21), Flt (Fin 23), Flt (Fin 24), Flt (Fin 25)]),
         (''HOURLYRelativeHumidity'', [I64 60, I64 62, I64 66, I64 70, I64 71]),
         (''HOURLYWindSpeed'', [Flt (Fin 7), Flt (Fin 8), Flt (Fin 10), Flt (Fin 11), Flt (Fin 12)]),
         (''HOURLYWindDirection'', [Str ''370'', Str ''180'', Str ''180'', Flt (Fin 90), Flt (Fin 0)]),
         (''HOURLYStationPressure'', [Flt (Fin 29), Flt (Fin 30), Flt (Fin 32), Flt (Fin 33), Flt (Fin 34)]),
         (''HOURLYPressureTendency'', [Flt NaN, Flt (Fin 2), Flt (Fin 4), Flt (Fin 7), Flt (Fin 8)]),
         (''HOURLYSeaLevelPressure'', [Flt (Fin 29), Flt (Fin 30), Flt (Fin 32), Flt (Fin 33), Flt (Fin 34)]),
         (''HOURLYPrecip'', [Str ''T'', Str ''0.00.1'', Str ''0.02s'', Flt NaN, Str ''0.00'']),
         (''HOURLYAltimeterSetting'', [Flt (Fin 29), Flt (Fin 30), Flt (Fin 32), Flt (Fin 33), Flt (Fin 34)])]\<rparr>"

text \<open>
  A second file whose two readings, at 00:10 and 00:50, fall into one hour.
\<close>

definition example_one_hour :: "cell frame" where
  "example_one_hour =
     \<lparr>index = [600, 3000],
      columns =
        [(''HOURLYVISIBILITY'', [Str ''*'', Str ''5'']),
         (''HOURLYDRYBULBTEMPF'', [I64 30, I64 31]),
         (''HOURLYWETBULBTEMPF'', [I64 28, I64 29]),
         (''HOURLYDewPointTempF'', [I64 20, I64 21]),
         (''HOURLYRelativeHumidity'', [I64 60, I64 62]),
         (''HOURLYWindSpeed'', [I64 7, I64 8]),
         (''HOURLYWindDirection'', [Str ''370'', Str ''10'']),
         (''HOURLYStationPressure'', [Flt (Fin 29), Flt (Fin 30)]),
         (''HOURLYPressureTendency'', [Flt NaN, Flt (Fin 2)]),
         (''HOURLYSeaLevelPressure'', [Flt (Fin 29), Flt (Fin 30)]),
         (''HOURLYPrecip'', [Str ''T'', Str ''0.00'']),
         (''HOURLYAltimeterSetting'', [Flt (Fin 29), Flt (Fin 30)])]\<rparr>"

definition example_one_hour_converted :: "f64 frame" where
  "example_one_hour_converted =
     \<lparr>index = [600, 3000],
      columns =
        [(''HOURLYVISIBILITY'', [NaN, Fin 5]),
         (''HOURLYDRYBULBTEMPF'', [Fin 30, Fin 31]),
         (''HOURLYWETBULBTEMPF'', [Fin 28, Fin 29]),
         (''HOURLYDewPointTempF'', [Fin 20, Fin 21]),
         (''HOURLYRelativeHumidity'', [Fin 60, Fin 62]),
         (''HOURLYWindSpeed'', [Fin 7, Fin 8]),
         (''HOURLYWindDirection'', [Fin 370, Fin 10]),
         (''HOURLYStationPressure'', [Fin 29, Fin 30]),
         (''HOURLYPressureTendency'', [NaN, Fin 2]),
         (''HOURLYSeaLevelPressure'', [Fin 29, Fin 30]),
         (''HOURLYPrecip'', [Fin 0, Fin 0]),
         (''HOURLYAltimeterSetting'', [Fin 29, Fin 30])]\<rparr>"

text \<open>The table that line 87 writes for it: the fifteen columns, with no row.\<close>

definition example_one_hour_cleaned :: "f64 frame" where
  "example_one_hour_cleaned =
     \<lparr>index = [],
      columns =
        [(''HOURLYVISIBILITY'', []), (''HOURLYDRYBULBTEMPF'', []), (''HOURLYWETBULBTEMPF'', []),
         (''HOURLYDewPointTempF'', []), (''HOURLYRelativeHumidity'', []),
         (''HOURLYWindSpeed'', []), (''HOURLYStationPressure'', []),
         (''HOURLYSeaLevelPressure'', []), (''HOURLYPrecip'', []),
         (''HOURLYAltimeterSetting'', []), (''HOURLYWindDirectionSin'', []),
         (''HOURLYWindDirectionCos'', []), (''HOURLYPressureTendencyIncr'', []),
         (''HOURLYPressureTendencyDecr'', []), (''HOURLYPressureTendencyCons'', [])]\<rparr>"

definition example_fs :: "string \<Rightarrow> exn + cell frame" where
  "example_fs path =
     (if path = ''jfk_weather.csv'' \<or> path = ''data.v2.csv'' \<or> path = ''./jfk_weather.csv''
      then Inr example_table
      else if path = ''one_hour.csv'' then Inr example_one_hour
      else Inl FileNotFoundError)"

text \<open>The example after lines 45 to 61: every cell a double, the visibility of 12 nulled.\<close>

definition example_converted :: "f64 frame" where
  "example_converted =
     \<lparr>index = [600, 3000, 8400, 10980, 14700],
      columns =
        [(''HOURLYVISIBILITY'', [NaN, Fin 5, NaN, Fin 9, Fin 10]),
         (''HOURLYDRYBULBTEMPF'', [Fin 30, Fin 31, Fin 35, Fin 36, Fin 38]),
         (''HOURLYWETBULBTEMPF'', [Fin 28, Fin 29, Fin 31, Fin 32, Fin 33]),
         (''HOURLYDewPointTempF'', [Fin 20, Fin 21, Fin 23, Fin 24, Fin 25]),
         (''HOURLYRelativeHumidity'', [Fin 60, Fin 62, Fin 66, Fin 70, Fin 71]),
         (''HOURLYWindSpeed'', [Fin 7, Fin 8, Fin 10, Fin 11, Fin 12]),
         (''HOURLYWindDirection'', [Fin 370, Fin 180, Fin 180, Fin 90, Fin 0]),
         (''HOURLYStationPressure'', [Fin 29, Fin 30, Fin 32, Fin 33, Fin 34]),
         (''HOURLYPressureTendency'', [NaN, Fin 2, Fin 4, Fin 7, Fin 8]),
         (''HOURLYSeaLevelPressure'', [Fin 29, Fin 30, Fin 32, Fin 33, Fin 34]),
         (''HOURLYPrecip'', [Fin 0, NaN, NaN, NaN, Fin 0]),
         (''HOURLYAltimeterSetting'', [Fin 29, Fin 30, Fin 32, Fin 33, Fin 34])]\<rparr>"

text \<open>After line 64: one row for each hour from 00:00 to 04:00, each holding the hour before.\<close>

definition example_shifted :: "f64 frame" where
  "example_shifted =
     \<lparr>index = [0, 3600, 7200, 10800, 14400],
      columns =
        [(''HOURLYVISIBILITY'', [NaN, Fin 5, NaN, NaN, Fin 9]),
         (''HOURLYDRYBULBTEMPF'', [NaN, Fin 31, NaN, Fin 35, Fin 36]),
         (''HOURLYWETBULBTEMPF'', [NaN, Fin 29, NaN, Fin 31, Fin 32]),
         (''HOURLYDewPointTempF'', [NaN, Fin 21, NaN, Fin 23, Fin 24]),
         (''HOURLYRelativeHumidity'', [NaN, Fin 62, NaN, Fin 66, Fin 70]),
         (''HOURLYWindSpeed'', [NaN, Fin 8, NaN, Fin 10, Fin 11]),
         (''HOURLYWindDirection'', [NaN, Fin 180, NaN, Fin 180, Fin 90]),
         (''HOURLYStationPressure'', [NaN, Fin 30, NaN, Fin 32, Fin 33]),
         (''HOURLYPressureTendency'', [NaN, Fin 2, NaN, Fin 4, Fin 7]),
         (''HOURLYSeaLevelPressure'', [NaN, Fin 30, NaN, Fin 32, Fin 33]),
         (''HOURLYPrecip'', [NaN, Fin 0, NaN, NaN, NaN]),
         (''HOURLYAltimeterSetting'', [NaN, Fin 30, NaN, Fin 32, Fin 33])]\<rparr>"

text \<open>After lines 67 to 69.\<close>

definition example_filled :: "f64 frame" where
  "example_filled =
     \<lparr>index = [3600, 7200, 10800, 14400],
      columns =
        [(''HOURLYVISIBILITY'', [Fin 5, Fin (19 / 3), Fin (23 / 3), Fin 9]),
         (''HOURLYDRYBULBTEMPF'', [Fin 31, Fin 33, Fin 35, Fin 36]),
         (''HOURLYWETBULBTEMPF'', [Fin 29, Fin 30, Fin 31, Fin 32]),
         (''HOURLYDewPointTempF'', [Fin 21, Fin 22, Fin 23, Fin 24]),
         (''HOURLYRelativeHumidity'', [Fin 62, Fin 64, Fin 66, Fin 70]),
         (''HOURLYWindSpeed'', [Fin 8, Fin 9, Fin 10, Fin 11]),
         (''HOURLYWindDirection'', [Fin 180, Fin 180, Fin 180, Fin 90]),
         (''HOURLYStationPressure'', [Fin 30, Fin 31, Fin 32, Fin 33]),
         (''HOURLYPressureTendency'', [Fin 2, Fin 2, Fin 4, Fin 7]),
         (''HOURLYSeaLevelPressure'', [Fin 30, Fin 31, Fin 32, Fin 33]),
         (''HOURLYPrecip'', [Fin 0, Fin 0, Fin 0, Fin 0]),
         (''HOURLYAltimeterSetting'', [Fin 30, Fin 31, Fin 32, Fin 33])]\<rparr>"

text \<open>The table that line 87 writes.\<close>

definition example_cleaned :: "f64 frame" where
  "example_cleaned =
     \<lparr>index = [3600, 7200, 10800, 14400],
      columns =
        [(''HOURLYVISIBILITY'', [Fin 5, Fin (19 / 3), Fin (23 / 3), Fin 9]),
         (''HOURLYDRYBULBTEMPF'', [Fin 31, Fin 33, Fin 35, Fin 36]),
         (''HOURLYWETBULBTEMPF'', [Fin 29, Fin 30, Fin 31, Fin 32]),
         (''HOURLYDewPointTempF'', [Fin 21, Fin 22, Fin 23, Fin 24]),
         (''HOURLYRelativeHumidity'', [Fin 62, Fin 64, Fin 66, Fin 70]),
         (''HOURLYWindSpeed'', [Fin 8, Fin 9, Fin 10, Fin 11]),
         (''HOURLYStationPressure'', [Fin 30, Fin 31, Fin 32, Fin 33]),
         (''HOURLYSeaLevelPressure'', [Fin 30, Fin 31, Fin 32, Fin 33]),
         (''HOURLYPrecip'', [Fin 0, Fin 0, Fin 0, Fin 0]),
         (''HOURLYAltimeterSetting'', [Fin 30, Fin 31, Fin 32, Fin 33]),
         (''HOURLYWindDirectionSin'', [Fin 0, Fin 0, Fin 0, Fin 1]),
         (''HOURLYWindDirectionCos'', [Fin (- 1), Fin (- 1), Fin (- 1), Fin 0]),
         (''HOURLYPressureTendencyIncr'', [Fin 1, Fin 1, Fin 0, Fin 0]),
         (''HOURLYPressureTendencyDecr'', [Fin 0, Fin 0, Fin 0, Fin 1]),
         (''HOURLYPressureTendencyCons'', [Fin 0, Fin 0, Fin 1, Fin 0])]\<rparr>"

text \<open>
  Small tables for the examples of single stages: a pressure tendency column with a
  missing code, codes of every kind, an out-of-domain code and a fractional one; a table
  whose rows are not in time order (00:50, 00:10, 01:06); a column with cells of every
  kind, the last one a whole number of 54 bits; and the malformed precipitation tokens.
\<close>

definition example_codes :: "f64 frame" where
  "example_codes =
     \<lparr>index = [0, 3600, 7200, 10800, 14400, 18000],
      columns = [(''HOURLYPressureTendency'', [NaN, Fin 2, Fin 4, Fin 7, Fin 9, Fin (9 / 2)])]\<rparr>"


definition example_cells :: "cell frame" where
  "example_cells =
     \<lparr>index = [600, 3000, 4200, 5400, 6000],
      columns =
        [(''HOURLYVISIBILITY'',
          [Str ''5'', Flt (Fin 9), I64 7, Str ''0.02s'', I64 9007199254740993])]\<rparr>"

definition example_precip :: "cell frame" where
  "example_precip =
     \<lparr>index = [600, 3000, 4200],
      columns = [(''HOURLYPrecip'', [Str ''0.00.1'', Str ''T'', Str ''0.25''])]\<rparr>"

section \<open>Properties\<close>

subsection \<open>Columns and exceptions\<close>

lemma map_of_overwrite:
  "map_of (map (\<lambda>(n, c). if n = name then (n, vs) else (n, c)) xs) k =
     (if k = name then (if name \<in> set (map fst xs) then Some vs else None) else map_of xs k)"
  by (induction xs) force+

lemma map_of_remove:
  "map_of (filter (\<lambda>(n, c). n \<noteq> name) xs) k = (if k = name then None else map_of xs k)"
  by (induction xs) auto

lemma getcol_setcol_same: "getcol n (setcol n vs df) = Inr vs"
  by (auto simp: getcol_def setcol_def map_of_overwrite map_add_def map_of_eq_None_iff
      split: option.splits dest!: map_of_SomeD intro: rev_image_eqI)

lemma getcol_setcol_other: "m \<noteq> n \<Longrightarrow> getcol n (setcol m vs df) = getcol n df"
  by (auto simp: getcol_def setcol_def map_of_overwrite map_add_def split: option.splits)

lemma getcol_dropcol:
  "dropcol m df = Inr out \<Longrightarrow> getcol n out = (if n = m then Inl KeyError else getcol n df)"
  by (auto simp: getcol_def dropcol_def map_of_remove split: if_splits)

lemma getcol_map_cols:
  "getcol n (map_cols f df) = (case getcol n df of Inl e \<Rightarrow> Inl e | Inr c \<Rightarrow> Inr (f c))"
  by (auto simp: getcol_def map_cols_def map_of_map split: option.splits)

lemma and_then_Inr: "and_then m f = Inr y \<longleftrightarrow> (\<exists>x. m = Inr x \<and> f x = Inr y)"
  by (cases m) (auto simp: and_then_def)

lemma encode_tendency_cols:
  assumes "encode_tendency df = Inr out"
  shows "\<exists>c. getcol ''HOURLYPressureTendency'' df = Inr c
    \<and> getcol ''HOURLYPressureTendencyIncr'' out = Inr (map tendency_incr c)
    \<and> getcol ''HOURLYPressureTendencyDecr'' out = Inr (map tendency_decr c)
    \<and> getcol ''HOURLYPressureTendencyCons'' out = Inr (map tendency_cons c)"
proof -
  from assms obtain c where c: "getcol ''HOURLYPressureTendency'' df = Inr c"
    and d: "dropcol ''HOURLYPressureTendency''
        (setcol ''HOURLYPressureTendencyCons'' (map tendency_cons c)
          (setcol ''HOURLYPressureTendencyDecr'' (map tendency_decr c)
            (setcol ''HOURLYPressureTendencyIncr'' (map tendency_incr c) df))) = Inr out"
    by (auto simp: encode_tendency_def and_then_Inr Let_def getcol_setcol_other)
  show ?thesis
    using c by (simp add: getcol_dropcol [OF d] getcol_setcol_same getcol_setcol_other)
qed

lemma and_then_Inr_eq: "and_then (Inr x) f = f x"
  by (simp add: and_then_def)

lemma and_then_Inl_eq: "and_then (Inl e) f = Inl e"
  by (simp add: and_then_def)

subsection \<open>The worked input, stage by stage\<close>

lemma sort_zip_sorted:
  "sorted ts \<Longrightarrow> length ts = length c \<Longrightarrow> sort_key fst (zip ts c) = zip ts c"
  by (rule sort_key_id_if_sorted) simp

lemma f64_of_int_small: "\<bar>i\<bar> \<le> 2 ^ 53 \<Longrightarrow> f64_of_int i = Fin (real_of_int i)"
proof -
  assume le: "\<bar>i\<bar> \<le> 2 ^ 53"
  define n where "n = nat \<bar>i\<bar>"
  have n: "n \<le> 2 ^ 53"
    using le by (simp add: n_def nat_le_iff)
  have "round_to_53 n = n"
  proof (cases "n < 2 ^ 53")
    case True
    then have "excess_bits n = 0" by (subst excess_bits.simps) simp
    then show ?thesis by (simp add: round_to_53_def)
  next
    case False
    with n have e: "n = 2 ^ 53" by simp
    have "excess_bits ((2::nat) ^ 53) = Suc (excess_bits (2 ^ 52))"
      by (subst excess_bits.simps) simp
    also have "excess_bits ((2::nat) ^ 52) = 0"
      by (subst excess_bits.simps) simp
    finally show ?thesis
      by (simp add: round_to_53_def e)
  qed
  moreover have "sgn i * int n = i"
    by (simp add: n_def sgn_if)
  ultimately show ?thesis
    by (simp add: f64_of_int_def n_def)
qed

lemma f64_of_int_tie: "f64_of_int 9007199254740993 = Fin 9007199254740992"
proof -
  have "excess_bits 9007199254740993 = Suc (excess_bits 4503599627370496)"
    by (subst excess_bits.simps) simp
  also have "excess_bits 4503599627370496 = 0"
    by (subst excess_bits.simps) simp
  finally show ?thesis
    by (simp add: f64_of_int_def round_to_53_def)
qed

lemma example_read:
  "read_csv example_fs ''jfk_weather.csv'' import_columns = Inr example_table"
  "read_csv example_fs ''data.v2.csv'' import_columns = Inr example_table"
  "read_csv example_fs ''./jfk_weather.csv'' import_columns = Inr example_table"
  by (simp_all add: read_csv_def example_fs_def example_table_def import_columns_def and_then_def)

lemma example_read_one_hour:
  "read_csv example_fs ''one_hour.csv'' import_columns = Inr example_one_hour"
  by (simp add: read_csv_def example_fs_def example_one_hour_def import_columns_def and_then_def)

lemma example_convert:
  "and_then (normalize_precip (replace_star example_table)) (\<lambda>df1.
     and_then (to_float example_parse df1) (\<lambda>df2.
     and_then (null_visibility df2) k)) = k example_converted"
  by (simp add: example_table_def and_then_def
      replace_star_def map_cols_def normalize_precip_def getcol_def str_count_def setcol_def
      to_float_def tryconvert_def np_float64_def f64_of_int_small example_parse_def
      null_visibility_def example_converted_def)

lemma example_bins: "bins [600, 3000, 8400, 10980, 14700] = [0, 1, 2, 3, 4]"
  by (simp add: bins_def hour_of_def upto.simps)

lemma example_in_bin:
  "length c = 5 \<Longrightarrow>
     in_bin [600, 3000, 8400, 10980, 14700] c h =
       map snd (filter (\<lambda>(t, v). hour_of t = h) (zip [600, 3000, 8400, 10980, 14700] c))"
  by (simp add: in_bin_def sort_zip_sorted)

lemma example_resample: "shift1 (resample_last example_converted) = example_shifted"
  by (simp add: example_converted_def example_shifted_def resample_last_def example_bins
      example_in_bin hour_of_def last_valid_def isna_def shift1_def shift_col_def map_cols_def)

lemma example_fill:
  "and_then (fill_gaps example_shifted) (\<lambda>df4. and_then (drop_first df4) k) = k example_filled"
  by (simp add: example_shifted_def example_filled_def and_then_def fill_gaps_def getcol_def
      setcol_def map_cols_def ffill_def interpolate_linear_def lerp_def Let_def
      f_sub_def isna_def drop_first_def)

lemma example_encode:
  "and_then (encode_wind example_filled) encode_tendency = Inr example_cleaned"
  by (simp add: example_filled_def example_cleaned_def and_then_def encode_wind_def
      encode_tendency_def getcol_def setcol_def dropcol_def to_radians_def
      tendency_incr_def tendency_decr_def tendency_cons_def py_in_def)

lemma example_clean:
  "clean example_fs example_parse ''jfk_weather.csv'' = Inr example_cleaned"
  "clean example_fs example_parse ''data.v2.csv'' = Inr example_cleaned"
  "clean example_fs example_parse ''./jfk_weather.csv'' = Inr example_cleaned"
  by (simp_all only: clean_def example_read and_then_Inr_eq example_convert example_resample
      example_fill example_encode)

lemma example_one_hour_convert:
  "and_then (normalize_precip (replace_star example_one_hour)) (\<lambda>df1.
     and_then (to_float example_parse df1) (\<lambda>df2.
     and_then (null_visibility df2) k)) = k example_one_hour_converted"
  by (simp add: example_one_hour_def and_then_def
      replace_star_def map_cols_def normalize_precip_def getcol_def str_count_def setcol_def
      to_float_def tryconvert_def np_float64_def f64_of_int_small example_parse_def
      null_visibility_def example_one_hour_converted_def)

lemma example_one_hour_bins: "bins [600, 3000] = [0]"
  by (simp add: bins_def hour_of_def upto.simps)

lemma example_one_hour_shift:
  "shift1 (resample_last example_one_hour_converted) =
     \<lparr>index = [0], columns = map (\<lambda>(n, c). (n, [NaN])) (columns example_one_hour_converted)\<rparr>"
  by (simp add: example_one_hour_converted_def resample_last_def example_one_hour_bins
      shift1_def shift_col_def map_cols_def)

lemma example_one_hour_rest:
  "and_then (fill_gaps (shift1 (resample_last example_one_hour_converted))) (\<lambda>df4.
     and_then (drop_first df4) (\<lambda>df5.
     and_then (encode_wind df5) encode_tendency)) = Inr example_one_hour_cleaned"
  unfolding example_one_hour_shift
  by (simp add: example_one_hour_converted_def example_one_hour_cleaned_def and_then_def
      fill_gaps_def getcol_def setcol_def map_cols_def ffill_def interpolate_linear_def isna_def
      drop_first_def encode_wind_def encode_tendency_def dropcol_def)

lemma example_clean_one_hour:
  "clean example_fs example_parse ''one_hour.csv'' = Inr example_one_hour_cleaned"
  by (simp only: clean_def example_read_one_hour and_then_Inr_eq example_one_hour_convert
      example_one_hour_rest)

subsection \<open>The pressure tendency indicators\<close>

lemma indicator_values:
  "tendency_incr NaN = Fin 0" "tendency_decr NaN = Fin 0" "tendency_cons NaN = Fin 0"
  "tendency_incr (Fin r) = (if r = 0 \<or> r = 1 \<or> r = 2 \<or> r = 3 then Fin 1 else Fin 0)"
  "tendency_decr (Fin r) = (if r = 5 \<or> r = 6 \<or> r = 7 \<or> r = 8 then Fin 1 else Fin 0)"
  "tendency_cons (Fin r) = (if r = 4 then Fin 1 else Fin 0)"
  by (simp_all add: tendency_incr_def tendency_decr_def tendency_cons_def py_in_def)

lemma indicator_inf:
  "tendency_incr PInf = Fin 0" "tendency_decr PInf = Fin 0" "tendency_cons PInf = Fin 0"
  "tendency_incr NInf = Fin 0" "tendency_decr NInf = Fin 0" "tendency_cons NInf = Fin 0"
  by (simp_all add: tendency_incr_def tendency_decr_def tendency_cons_def py_in_def)




lemma last_valid_cases:
  "last_valid vs = NaN \<and> (\<forall>v\<in>set vs. isna v) \<or> last_valid vs \<in> set vs \<and> \<not> isna (last_valid vs)"
proof (cases "filter (\<lambda>v. \<not> isna v) vs")
  case Nil
  then show ?thesis by (simp add: last_valid_def filter_empty_conv)
next
  case (Cons w ws)
  have "set (w # ws) = {v \<in> set vs. \<not> isna v}"
    using Cons by (metis set_filter)
  moreover have "last (w # ws) \<in> set (w # ws)"
    by (rule last_in_set) simp
  ultimately have "last (w # ws) \<in> set vs \<and> \<not> isna (last (w # ws))"
    by blast
  moreover have "last_valid vs = last (w # ws)"
    by (simp add: last_valid_def Cons)
  ultimately show ?thesis by simp
qed


lemma example_codes_encoded:
  "encode_tendency example_codes =
     Inr \<lparr>index = [0, 3600, 7200, 10800, 14400, 18000],
          columns =
            [(''HOURLYPressureTendencyIncr'', [Fin 0, Fin 1, Fin 0, Fin 0, Fin 0, Fin 0]),
             (''HOURLYPressureTendencyDecr'', [Fin 0, Fin 0, Fin 0, Fin 1, Fin 0, Fin 0]),
             (''HOURLYPressureTendencyCons'', [Fin 0, Fin 0, Fin 1, Fin 0, Fin 0, Fin 0])]\<rparr>"
  by (simp add: example_codes_def encode_tendency_def and_then_def getcol_def setcol_def
      dropcol_def tendency_incr_def tendency_decr_def tendency_cons_def py_in_def)

lemma example_codes_col:
  "getcol ''HOURLYPressureTendency'' example_codes =
     Inr [NaN, Fin 2, Fin 4, Fin 7, Fin 9, Fin (9 / 2)]"
  by (simp add: example_codes_def getcol_def)

text \<open>
  C4. For every row of the table that lines 77 to 83 produce: when the pressure tendency
  code of the row (the column as forward fill left it) is one of 0, 1, 2, 3 the
  indicators are Incr = 1.0, Decr = 0.0, Cons = 0.0; when it is one of 5, 6, 7, 8 they
  are 0.0, 1.0, 0.0; when it is 4 they are 0.0, 0.0, 1.0; and when the code is missing
  (a leading row that forward fill could not reach) all three are 0.0. So for an integer
  code from 0 to 8 exactly one indicator is 1.0.
\<close>

theorem tendency_one_hot:
  assumes "encode_tendency df = Inr out"
    and "getcol ''HOURLYPressureTendency'' df = Inr codes"
    and "k < length codes"
  shows "\<exists>ci cd cc.
      getcol ''HOURLYPressureTendencyIncr'' out = Inr ci \<and> length ci = length codes
    \<and> getcol ''HOURLYPressureTendencyDecr'' out = Inr cd \<and> length cd = length codes
    \<and> getcol ''HOURLYPressureTendencyCons'' out = Inr cc \<and> length cc = length codes
    \<and> (\<forall>n\<in>{0, 1, 2, 3}. codes ! k = Fin n \<longrightarrow> ci ! k = Fin 1 \<and> cd ! k = Fin 0 \<and> cc ! k = Fin 0)
    \<and> (\<forall>n\<in>{5, 6, 7, 8}. codes ! k = Fin n \<longrightarrow> ci ! k = Fin 0 \<and> cd ! k = Fin 1 \<and> cc ! k = Fin 0)
    \<and> (codes ! k = Fin 4 \<longrightarrow> ci ! k = Fin 0 \<and> cd ! k = Fin 0 \<and> cc ! k = Fin 1)
    \<and> (codes ! k = NaN \<longrightarrow> ci ! k = Fin 0 \<and> cd ! k = Fin 0 \<and> cc ! k = Fin 0)"
  using encode_tendency_cols [OF assms(1)] assms(2,3)
  by (auto simp: indicator_values)

theorem tendency_one_hot_witness:
  "\<exists>out ci cd cc. encode_tendency example_codes = Inr out
     \<and> getcol ''HOURLYPressureTendencyIncr'' out = Inr ci
     \<and> getcol ''HOURLYPressureTendencyDecr'' out = Inr cd
     \<and> getcol ''HOURLYPressureTendencyCons'' out = Inr cc
     \<and> ci ! 3 = Fin 0 \<and> cd ! 3 = Fin 1 \<and> cc ! 3 = Fin 0
     \<and> ci ! 0 = Fin 0 \<and> cd ! 0 = Fin 0 \<and> cc ! 0 = Fin 0"
proof -
  obtain out where out: "encode_tendency example_codes = Inr out"
    using example_codes_encoded by blast
  have k3: "3 < length [NaN, Fin 2, Fin 4, Fin 7, Fin 9, Fin (9 / 2)]"
    by simp
  from tendency_one_hot [OF out example_codes_col k3] obtain ci cd cc where
    cols: "getcol ''HOURLYPressureTendencyIncr'' out = Inr ci"
      "getcol ''HOURLYPressureTendencyDecr'' out = Inr cd"
      "getcol ''HOURLYPressureTendencyCons'' out = Inr cc"
    and dec: "\<forall>n\<in>{5, 6, 7, 8}. [NaN, Fin 2, Fin 4, Fin 7, Fin 9, Fin (9 / 2)] ! 3 = Fin n \<longrightarrow>
        ci ! 3 = Fin 0 \<and> cd ! 3 = Fin 1 \<and> cc ! 3 = Fin 0"
    by blast
  have k0: "0 < length [NaN, Fin 2, Fin 4, Fin 7, Fin 9, Fin (9 / 2)]"
    by simp
  from tendency_one_hot [OF out example_codes_col k0] cols
  have mis: "[NaN, Fin 2, Fin 4, Fin 7, Fin 9, Fin (9 / 2)] ! 0 = NaN \<longrightarrow>
        ci ! 0 = Fin 0 \<and> cd ! 0 = Fin 0 \<and> cc ! 0 = Fin 0"
    by auto
  from dec have "ci ! 3 = Fin 0 \<and> cd ! 3 = Fin 1 \<and> cc ! 3 = Fin 0"
    by simp
  moreover from mis have "ci ! 0 = Fin 0 \<and> cd ! 0 = Fin 0 \<and> cc ! 0 = Fin 0"
    by simp
  ultimately show ?thesis
    using out cols by blast
qed

text \<open>
  C10. For every row and whatever the pressure tendency value of the row is (missing,
  infinite, fractional or outside 0 to 8 included), at most one of the three indicator
  columns is 1.0 in that row.
\<close>

theorem tendency_exclusive:
  assumes "encode_tendency df = Inr out"
    and "getcol ''HOURLYPressureTendency'' df = Inr codes"
    and "k < length codes"
  shows "\<exists>ci cd cc.
      getcol ''HOURLYPressureTendencyIncr'' out = Inr ci \<and> length ci = length codes
    \<and> getcol ''HOURLYPressureTendencyDecr'' out = Inr cd \<and> length cd = length codes
    \<and> getcol ''HOURLYPressureTendencyCons'' out = Inr cc \<and> length cc = length codes
    \<and> length (filter (\<lambda>v. v = Fin 1) [ci ! k, cd ! k, cc ! k]) \<le> 1"
  using encode_tendency_cols [OF assms(1)] assms(2,3)
  by (cases "codes ! k") (auto simp: indicator_values indicator_inf)

theorem tendency_exclusive_witness:
  "\<exists>out ci cd cc. encode_tendency example_codes = Inr out
     \<and> getcol ''HOURLYPressureTendencyIncr'' out = Inr ci
     \<and> getcol ''HOURLYPressureTendencyDecr'' out = Inr cd
     \<and> getcol ''HOURLYPressureTendencyCons'' out = Inr cc
     \<and> length (filter (\<lambda>v. v = Fin 1) [ci ! 5, cd ! 5, cc ! 5]) \<le> 1"
proof -
  obtain out where out: "encode_tendency example_codes = Inr out"
    using example_codes_encoded by blast
  have k5: "5 < length [NaN, Fin 2, Fin 4, Fin 7, Fin 9, Fin (9 / 2)]"
    by simp
  from tendency_exclusive [OF out example_codes_col k5]
  show ?thesis
    using out by blast
qed

subsection \<open>Conversion to float\<close>

lemma traverse_Inr: "traverse (\<lambda>x. Inr (g x)) xs = Inr (map g xs)"
  by (induction xs) auto

lemma tryconvert_Inr:
  "tryconvert parse = (\<lambda>v. Inr (case np_float64 parse v of Inl e \<Rightarrow> NaN | Inr x \<Rightarrow> x))"
  by (auto simp: tryconvert_def fun_eq_iff split: sum.splits)

lemma to_float_Inr:
  "to_float parse df =
     Inr (map_cols (map (\<lambda>v. case np_float64 parse v of Inl e \<Rightarrow> NaN | Inr x \<Rightarrow> x)) df)"
proof -
  have h: "traverse (\<lambda>(n, c). and_then (traverse (tryconvert parse) c) (\<lambda>c'. Inr (n, c'))) cs
      = Inr (map (\<lambda>(n, c). (n, map (\<lambda>v. case np_float64 parse v of Inl e \<Rightarrow> NaN | Inr x \<Rightarrow> x) c)) cs)"
    for cs
    by (induction cs) (auto simp: tryconvert_Inr traverse_Inr and_then_def)
  show ?thesis
    unfolding to_float_def h by (simp add: and_then_def map_cols_def)
qed

lemma np_float64_value:
  "(case np_float64 parse v of Inl e \<Rightarrow> NaN | Inr x \<Rightarrow> x) =
     (case v of Str s \<Rightarrow> (case parse s of Inl e \<Rightarrow> NaN | Inr y \<Rightarrow> y)
      | I64 i \<Rightarrow> f64_of_int i | Flt x \<Rightarrow> x)"
  by (simp add: np_float64_def split: cell.splits)

text \<open>
  C3. The numeric coercion is total and returns the parsed double or the missing marker:
  \<open>tryconvert\<close> returns a double cell as it is, a whole number as the double nearest to
  it (the number itself up to 53 bits), a text cell as the double that NumPy parses from
  it, and the missing marker when NumPy raises on the text; it never raises itself. So
  the conversion loop of lines 57 and 58 returns a table for every table, with the same
  index, the same column names, and every cell of every column converted in this way.
\<close>

theorem tryconvert_total:
  "tryconvert parse (Flt x) = Inr x
   \<and> tryconvert parse (I64 i) = Inr (f64_of_int i)
   \<and> (\<bar>i\<bar> \<le> 2 ^ 53 \<longrightarrow> f64_of_int i = Fin (real_of_int i))
   \<and> (\<forall>y. parse s = Inr y \<longrightarrow> tryconvert parse (Str s) = Inr y)
   \<and> (\<forall>e. parse s = Inl e \<longrightarrow> tryconvert parse (Str s) = Inr NaN)
   \<and> (\<exists>y. tryconvert parse v = Inr y)
   \<and> (\<exists>out. to_float parse df = Inr out \<and> index out = index df
        \<and> map fst (columns out) = map fst (columns df)
        \<and> (\<forall>n c. getcol n df = Inr c \<longrightarrow>
              getcol n out =
                Inr (map (\<lambda>v. case v of
                              Str s \<Rightarrow> (case parse s of Inl e \<Rightarrow> NaN | Inr y \<Rightarrow> y)
                            | I64 i \<Rightarrow> f64_of_int i
                            | Flt x \<Rightarrow> x) c)))"
proof (intro conjI allI impI)
  show "tryconvert parse (Flt x) = Inr x" and "tryconvert parse (I64 i) = Inr (f64_of_int i)"
    by (simp_all add: tryconvert_def np_float64_def)
next
  assume "\<bar>i\<bar> \<le> 2 ^ 53"
  then show "f64_of_int i = Fin (real_of_int i)"
    by (rule f64_of_int_small)
next
  fix y assume "parse s = Inr y"
  then show "tryconvert parse (Str s) = Inr y"
    by (simp add: tryconvert_def np_float64_def)
next
  fix e assume "parse s = Inl e"
  then show "tryconvert parse (Str s) = Inr NaN"
    by (simp add: tryconvert_def np_float64_def)
next
  show "\<exists>y. tryconvert parse v = Inr y"
    by (simp add: tryconvert_Inr)
next
  let ?g = "\<lambda>v. case v of
                Str s \<Rightarrow> (case parse s of Inl e \<Rightarrow> NaN | Inr y \<Rightarrow> y)
              | I64 i \<Rightarrow> f64_of_int i
              | Flt x \<Rightarrow> x"
  have out: "to_float parse df = Inr (map_cols (map ?g) df)"
    by (simp add: to_float_Inr np_float64_value)
  have names: "map fst (columns (map_cols (map ?g) df)) = map fst (columns df)"
    by (simp add: map_cols_def comp_def case_prod_unfold)
  have cols: "\<forall>n c. getcol n df = Inr c \<longrightarrow> getcol n (map_cols (map ?g) df) = Inr (map ?g c)"
    by (simp add: getcol_map_cols)
  show "\<exists>out. to_float parse df = Inr out \<and> index out = index df
        \<and> map fst (columns out) = map fst (columns df)
        \<and> (\<forall>n c. getcol n df = Inr c \<longrightarrow> getcol n out = Inr (map ?g c))"
    using out names cols by (simp add: map_cols_def)
qed

theorem tryconvert_total_witness:
  "tryconvert example_parse (Str ''5'') = Inr (Fin 5)
   \<and> tryconvert example_parse (Str ''0.02s'') = Inr NaN
   \<and> tryconvert example_parse (I64 7) = Inr (Fin 7)
   \<and> (\<exists>out. to_float example_parse example_cells = Inr out
        \<and> getcol ''HOURLYVISIBILITY'' out
            = Inr [Fin 5, Fin 9, Fin 7, NaN, Fin 9007199254740992])"
proof -
  have a: "example_parse ''5'' = Inr (Fin 5)"
    and b: "example_parse ''0.02s'' = Inl ValueError"
    and s: "\<bar>7::int\<bar> \<le> 2 ^ 53"
    by (simp_all add: example_parse_def)
  have c: "getcol ''HOURLYVISIBILITY'' example_cells
      = Inr [Str ''5'', Flt (Fin 9), I64 7, Str ''0.02s'', I64 9007199254740993]"
    by (simp add: getcol_def example_cells_def)
  from tryconvert_total [of example_parse NaN 7 "''5''" "Flt NaN" example_cells] a s
  have 1: "tryconvert example_parse (Str ''5'') = Inr (Fin 5)"
    and 3: "tryconvert example_parse (I64 7) = Inr (Fin 7)"
    by simp_all
  from tryconvert_total [of example_parse NaN 7 "''0.02s''" "Flt NaN" example_cells] b
  have 2: "tryconvert example_parse (Str ''0.02s'') = Inr NaN"
    by blast
  from tryconvert_total [of example_parse NaN 7 "''5''" "Flt NaN" example_cells] c
  obtain out where "to_float example_parse example_cells = Inr out"
    and "getcol ''HOURLYVISIBILITY'' out =
      Inr (map (\<lambda>v. case v of
                    Str s \<Rightarrow> (case example_parse s of Inl e \<Rightarrow> NaN | Inr y \<Rightarrow> y)
                  | I64 i \<Rightarrow> f64_of_int i
                  | Flt x \<Rightarrow> x)
            [Str ''5'', Flt (Fin 9), I64 7, Str ''0.02s'', I64 9007199254740993])"
    by blast
  then have "\<exists>out. to_float example_parse example_cells = Inr out
        \<and> getcol ''HOURLYVISIBILITY'' out
            = Inr [Fin 5, Fin 9, Fin 7, NaN, Fin 9007199254740992]"
    by (auto simp: example_parse_def f64_of_int_small f64_of_int_tie)
  with 1 2 3 show ?thesis by blast
qed

subsection \<open>Precipitation\<close>

lemma str_count_length: "str_count ch col = Inr ns \<Longrightarrow> length ns = length col"
  by (auto simp: str_count_def split: if_splits)

lemma str_count_nth:
  "str_count ch col = Inr ns \<Longrightarrow> i < length col \<Longrightarrow>
     ns ! i = (case col ! i of Str s \<Rightarrow> Fin (real (count_list s ch)) | _ \<Rightarrow> NaN)"
  by (auto simp: str_count_def split: if_splits)

lemma normalize_precip_col:
  assumes "normalize_precip df = Inr out" and "getcol ''HOURLYPrecip'' df = Inr col"
  shows "getcol ''HOURLYPrecip'' out =
    Inr (map (\<lambda>c. case (if c = Str ''T'' then Str ''0.00'' else c) of
                  Str s \<Rightarrow> if 1 < count_list s CHR ''.'' then Flt NaN else Str s
                | I64 i \<Rightarrow> I64 i
                | Flt x \<Rightarrow> Flt x) col)"
proof -
  let ?tr = "map (\<lambda>c. if c = Str ''T'' then Str ''0.00'' else c) col"
  let ?f = "\<lambda>(n, c). if f_less (Fin 1) n then Flt NaN else c"
  let ?g = "\<lambda>c. case (if c = Str ''T'' then Str ''0.00'' else c) of
                  Str s \<Rightarrow> if 1 < count_list s CHR ''.'' then Flt NaN else Str s
                | I64 i \<Rightarrow> I64 i
                | Flt x \<Rightarrow> Flt x"
  from assms obtain ns where ns: "str_count CHR ''.'' ?tr = Inr ns"
    and out: "out = setcol ''HOURLYPrecip'' (map ?f (zip ns ?tr)) df"
    by (auto simp: normalize_precip_def and_then_Inr Let_def)
  have len: "length ns = length col"
    using str_count_length [OF ns] by simp
  have "map ?f (zip ns ?tr) = map ?g col"
  proof (rule nth_equalityI)
    show "length (map ?f (zip ns ?tr)) = length (map ?g col)"
      using len by simp
  next
    fix i assume "i < length (map ?f (zip ns ?tr))"
    then have i: "i < length col" using len by simp
    then have "ns ! i = (case ?tr ! i of Str s \<Rightarrow> Fin (real (count_list s CHR ''.'')) | _ \<Rightarrow> NaN)"
      using str_count_nth [OF ns, of i] by simp
    then show "map ?f (zip ns ?tr) ! i = map ?g col ! i"
      using i len by (auto split: cell.splits)
  qed
  then show ?thesis
    by (simp add: out getcol_setcol_same)
qed

text \<open>
  C6. After lines 52 and 54 the precipitation column holds \<open>0.00\<close> wherever it held the
  token \<open>T\<close>, holds the missing marker wherever it held a token with more than one
  decimal point, and is unchanged elsewhere; so the column contains no \<open>T\<close> and no
  token with two or more decimal points.
\<close>

theorem precip_normalized:
  assumes "normalize_precip df = Inr out" and "getcol ''HOURLYPrecip'' df = Inr col"
  shows "\<exists>col'. getcol ''HOURLYPrecip'' out = Inr col' \<and> length col' = length col
     \<and> (\<forall>i<length col.
           (col ! i = Str ''T'' \<longrightarrow> col' ! i = Str ''0.00'')
         \<and> (\<forall>s. col ! i = Str s \<and> 1 < count_list s CHR ''.'' \<longrightarrow> col' ! i = Flt NaN)
         \<and> (col ! i \<noteq> Str ''T'' \<and> (\<forall>s. col ! i = Str s \<longrightarrow> count_list s CHR ''.'' \<le> 1)
              \<longrightarrow> col' ! i = col ! i))
     \<and> Str ''T'' \<notin> set col'
     \<and> (\<forall>s. Str s \<in> set col' \<longrightarrow> count_list s CHR ''.'' \<le> 1)"
proof -
  define g where "g = (\<lambda>c. case (if c = Str ''T'' then Str ''0.00'' else c) of
                  Str s \<Rightarrow> if 1 < count_list s CHR ''.'' then Flt NaN else Str s
                | I64 i \<Rightarrow> I64 i
                | Flt x \<Rightarrow> Flt x)"
  have T: "g c \<noteq> Str ''T''" for c
    by (auto simp: g_def split: cell.splits)
  have dots: "g c = Str s \<Longrightarrow> count_list s CHR ''.'' \<le> 1" for c s
    by (auto simp: g_def split: cell.splits if_splits)
  have rows: "(c = Str ''T'' \<longrightarrow> g c = Str ''0.00'')
      \<and> (\<forall>s. c = Str s \<and> 1 < count_list s CHR ''.'' \<longrightarrow> g c = Flt NaN)
      \<and> (c \<noteq> Str ''T'' \<and> (\<forall>s. c = Str s \<longrightarrow> count_list s CHR ''.'' \<le> 1) \<longrightarrow> g c = c)" for c
    by (cases c) (auto simp: g_def)
  have "getcol ''HOURLYPrecip'' out = Inr (map g col)"
    unfolding g_def by (rule normalize_precip_col [OF assms])
  moreover have "Str ''T'' \<notin> set (map g col)"
  proof
    assume "Str ''T'' \<in> set (map g col)"
    then obtain c where "g c = Str ''T''" by auto
    with T show False by blast
  qed
  moreover have "\<forall>s. Str s \<in> set (map g col) \<longrightarrow> count_list s CHR ''.'' \<le> 1"
  proof (intro allI impI)
    fix s assume "Str s \<in> set (map g col)"
    then obtain c where "g c = Str s" by auto
    then show "count_list s CHR ''.'' \<le> 1" by (rule dots)
  qed
  moreover have "\<forall>i<length col.
           (col ! i = Str ''T'' \<longrightarrow> map g col ! i = Str ''0.00'')
         \<and> (\<forall>s. col ! i = Str s \<and> 1 < count_list s CHR ''.'' \<longrightarrow> map g col ! i = Flt NaN)
         \<and> (col ! i \<noteq> Str ''T'' \<and> (\<forall>s. col ! i = Str s \<longrightarrow> count_list s CHR ''.'' \<le> 1)
              \<longrightarrow> map g col ! i = col ! i)"
    using rows by simp
  ultimately show ?thesis
    by (intro exI [of _ "map g col"]) simp
qed

theorem precip_normalized_witness:
  "\<exists>out col'. normalize_precip example_precip = Inr out
     \<and> getcol ''HOURLYPrecip'' out = Inr col'
     \<and> col' ! 0 = Flt NaN \<and> col' ! 1 = Str ''0.00'' \<and> col' ! 2 = Str ''0.25''
     \<and> Str ''T'' \<notin> set col'"
proof -
  obtain out where out: "normalize_precip example_precip = Inr out"
    by (simp add: normalize_precip_def example_precip_def and_then_def getcol_def
        str_count_def setcol_def)
  have col: "getcol ''HOURLYPrecip'' example_precip = Inr [Str ''0.00.1'', Str ''T'', Str ''0.25'']"
    by (simp add: getcol_def example_precip_def)
  from precip_normalized [OF out col] obtain col' where
    c: "getcol ''HOURLYPrecip'' out = Inr col'" and
    rows: "\<forall>i<length [Str ''0.00.1'', Str ''T'', Str ''0.25''].
           ([Str ''0.00.1'', Str ''T'', Str ''0.25''] ! i = Str ''T'' \<longrightarrow> col' ! i = Str ''0.00'')
         \<and> (\<forall>s. [Str ''0.00.1'', Str ''T'', Str ''0.25''] ! i = Str s \<and> 1 < count_list s CHR ''.''
              \<longrightarrow> col' ! i = Flt NaN)
         \<and> ([Str ''0.00.1'', Str ''T'', Str ''0.25''] ! i \<noteq> Str ''T''
              \<and> (\<forall>s. [Str ''0.00.1'', Str ''T'', Str ''0.25''] ! i = Str s \<longrightarrow> count_list s CHR ''.'' \<le> 1)
              \<longrightarrow> col' ! i = [Str ''0.00.1'', Str ''T'', Str ''0.25''] ! i)" and
    noT: "Str ''T'' \<notin> set col'"
    by blast
  from rows [rule_format, of 0] have "col' ! 0 = Flt NaN" by simp
  moreover from rows [rule_format, of 1] have "col' ! 1 = Str ''0.00''" by simp
  moreover from rows [rule_format, of 2] have "col' ! 2 = Str ''0.25''" by simp
  ultimately show ?thesis
    using out c noT by blast
qed

subsection \<open>The output path\<close>

lemma split_acc_length: "length (split_acc sep acc s) = Suc (count_list s sep)"
  by (induction s arbitrary: acc) auto

lemma split_acc_hd: "hd (split_acc sep acc s) = rev acc @ takeWhile (\<lambda>c. c \<noteq> sep) s"
  by (induction s arbitrary: acc) auto

lemma output_path_cases:
  "output_path path =
     (if count_list path CHR ''.'' = 1
      then Inr (takeWhile (\<lambda>c. c \<noteq> CHR ''.'') path @ ''_cleaned.csv'')
      else Inl ValueError)"
proof -
  have len: "length (split path CHR ''.'') = Suc (count_list path CHR ''.'')"
    by (simp add: split_def split_acc_length)
  have hd: "hd (split path CHR ''.'') = takeWhile (\<lambda>c. c \<noteq> CHR ''.'') path"
    by (simp add: split_def split_acc_hd)
  show ?thesis
  proof (cases "split path CHR ''.''")
    case Nil
    with len show ?thesis by simp
  next
    case (Cons a as)
    note c1 = this
    show ?thesis
    proof (cases as)
      case Nil
      with c1 len show ?thesis by (simp add: output_path_def)
    next
      case (Cons b bs)
      with c1 len hd show ?thesis
        by (cases bs) (auto simp: output_path_def)
    qed
  qed
qed

lemma main_written:
  "written (main fs parse a) =
     (case clean fs parse (filepath a) of
        Inl e \<Rightarrow> None
      | Inr t \<Rightarrow> (case output_path (filepath a) of Inl e \<Rightarrow> None | Inr out \<Rightarrow> Some (out, t)))"
  by (simp add: main_def split: sum.splits)

lemma main_printed_unwritten: "written (main fs parse a) = None \<Longrightarrow> printed (main fs parse a) = []"
  by (auto simp: main_def split: sum.splits if_splits)

lemma main_quiet: "\<not> verbose a \<Longrightarrow> printed (main fs parse a) = []"
  by (simp add: main_def split: sum.splits)

text \<open>
  Line 86 unpacks \<open>filepath.split(".")\<close> into exactly two names. For a path with
  exactly one \<open>.\<close> the output path is the text before that \<open>.\<close> followed by
  \<open>_cleaned.csv\<close>, and a run whose cleaning succeeded writes the table there. For a
  path with any other number of \<open>.\<close> the unpacking raises ValueError and the run writes
  no file.
\<close>

lemma output_path_single_dot:
  "(count_list (filepath a) CHR ''.'' = 1 \<longrightarrow>
      output_path (filepath a) = Inr (takeWhile (\<lambda>c. c \<noteq> CHR ''.'') (filepath a) @ ''_cleaned.csv'')
      \<and> (\<forall>t. clean fs parse (filepath a) = Inr t \<longrightarrow>
            written (main fs parse a)
              = Some (takeWhile (\<lambda>c. c \<noteq> CHR ''.'') (filepath a) @ ''_cleaned.csv'', t)))
   \<and> (count_list (filepath a) CHR ''.'' \<noteq> 1 \<longrightarrow>
        output_path (filepath a) = Inl ValueError \<and> written (main fs parse a) = None)
   \<and> (\<forall>out t. written (main fs parse a) = Some (out, t) \<longrightarrow>
        count_list (filepath a) CHR ''.'' = 1
        \<and> out = takeWhile (\<lambda>c. c \<noteq> CHR ''.'') (filepath a) @ ''_cleaned.csv'')"
  by (auto simp: main_written output_path_cases split: sum.splits if_splits)

lemma example_written:
  "written (main example_fs example_parse \<lparr>filepath = ''jfk_weather.csv'', verbose = v\<rparr>)
     = Some (''jfk_weather_cleaned.csv'', example_cleaned)"
  by (simp add: main_written example_clean output_path_def split_def)

text \<open>
  C1. For every input path the output path is to be the text before the first \<open>.\<close> of
  the path followed by \<open>_cleaned.csv\<close>, and the run is to complete and write that file
  also when the path has more than one \<open>.\<close>. The code misses the paths that do not
  have exactly one \<open>.\<close>: for
  \<open>data.v2.csv\<close> the pieces of the split are three, so after the table has been cleaned
  line 86 raises ValueError and no file is written; the same happens for
  \<open>./jfk_weather.csv\<close>, whose extra \<open>.\<close> is in the directory part.
\<close>

theorem output_path_two_dots_raises:
  "split ''data.v2.csv'' CHR ''.'' = [''data'', ''v2'', ''csv'']
   \<and> clean example_fs example_parse ''data.v2.csv'' = Inr example_cleaned
   \<and> output_path ''data.v2.csv'' = Inl ValueError
   \<and> written (main example_fs example_parse \<lparr>filepath = ''data.v2.csv'', verbose = False\<rparr>) = None
   \<and> raised (main example_fs example_parse \<lparr>filepath = ''data.v2.csv'', verbose = False\<rparr>)
       = Some ValueError
   \<and> split ''./jfk_weather.csv'' CHR ''.'' = [[], ''/jfk_weather'', ''csv'']
   \<and> clean example_fs example_parse ''./jfk_weather.csv'' = Inr example_cleaned
   \<and> written (main example_fs example_parse \<lparr>filepath = ''./jfk_weather.csv'', verbose = False\<rparr>)
       = None
   \<and> raised (main example_fs example_parse \<lparr>filepath = ''./jfk_weather.csv'', verbose = False\<rparr>)
       = Some ValueError"
  by (simp add: example_clean main_def output_path_def split_def)

subsection \<open>The verbose flag\<close>

text \<open>
  For every file system, parser and path, the run with the verbose flag and the run
  without it write the same file: the same path and the same table, or no file in both.
  The run without the flag prints nothing, and a run that writes no file prints nothing
  and ends as the run without the flag does.
\<close>

lemma verbose_same_file:
  "written (main fs parse \<lparr>filepath = p, verbose = True\<rparr>)
     = written (main fs parse \<lparr>filepath = p, verbose = False\<rparr>)
   \<and> printed (main fs parse \<lparr>filepath = p, verbose = False\<rparr>) = []
   \<and> (written (main fs parse \<lparr>filepath = p, verbose = True\<rparr>) = None \<longrightarrow>
        printed (main fs parse \<lparr>filepath = p, verbose = True\<rparr>) = []
        \<and> raised (main fs parse \<lparr>filepath = p, verbose = True\<rparr>)
            = raised (main fs parse \<lparr>filepath = p, verbose = False\<rparr>))"
  by (auto simp: main_written main_quiet main_printed_unwritten)
    (auto simp: main_def split: sum.splits)

lemma example_summary:
  "printed (main example_fs example_parse \<lparr>filepath = ''jfk_weather.csv'', verbose = True\<rparr>)
     = [Banner, Megabytes, Features 15, Observations 4, StartDate 3600, EndDate 14400,
        Days 0, Months 0, Years 0]"
  by (simp add: main_def example_clean output_path_def split_def date_lines_def head_lines_def
      example_cleaned_def round2_def)

subsection \<open>The summary of an empty table\<close>

text \<open>
  When the written table has no row (all readings fell into one hour), the verbose
  branch raises IndexError at \<open>index[0]\<close>, after the file has been written.
\<close>

lemma verbose_empty_table:
  assumes "clean fs parse p = Inr t" and "index t = []" and "output_path p = Inr out"
  shows "written (main fs parse \<lparr>filepath = p, verbose = True\<rparr>) = Some (out, t)"
    and "raised (main fs parse \<lparr>filepath = p, verbose = True\<rparr>) = Some IndexError"
    and "raised (main fs parse \<lparr>filepath = p, verbose = False\<rparr>) = None"
  using assms by (simp_all add: main_def date_lines_def)

text \<open>
  C9. The verbose flag is meant to add informational printing only and to change no
  outcome of the run. It never changes the file that is written, but the code misses the
  table with no row: for the file whose two readings fall into one hour, the run without
  the flag writes the file and ends normally, and the run with the flag writes the same
  file, prints the first four lines of the summary, and then ends with IndexError at
  line 94.
\<close>

theorem verbose_one_hour_raises:
  "written (main example_fs example_parse \<lparr>filepath = ''one_hour.csv'', verbose = False\<rparr>)
     = Some (''one_hour_cleaned.csv'', example_one_hour_cleaned)
   \<and> raised (main example_fs example_parse \<lparr>filepath = ''one_hour.csv'', verbose = False\<rparr>)
     = None
   \<and> written (main example_fs example_parse \<lparr>filepath = ''one_hour.csv'', verbose = True\<rparr>)
     = Some (''one_hour_cleaned.csv'', example_one_hour_cleaned)
   \<and> printed (main example_fs example_parse \<lparr>filepath = ''one_hour.csv'', verbose = True\<rparr>)
     = [Banner, Megabytes, Features 15, Observations 0]
   \<and> raised (main example_fs example_parse \<lparr>filepath = ''one_hour.csv'', verbose = True\<rparr>)
     = Some IndexError"
  by (simp add: main_def example_clean_one_hour output_path_def split_def date_lines_def
      head_lines_def example_one_hour_cleaned_def)

subsection \<open>Resampling, the shift and the first row\<close>




lemma getcol_mapped:
  "columns d = map (\<lambda>(n, c). (n, f c)) (columns df) \<Longrightarrow>
     getcol n d = (case getcol n df of Inl e \<Rightarrow> Inl e | Inr c \<Rightarrow> Inr (f c))"
  by (auto simp: getcol_def map_of_map split: option.splits)

lemma getcol_resample_last:
  "getcol n (resample_last df) =
     (case getcol n df of Inl e \<Rightarrow> Inl e
      | Inr c \<Rightarrow> Inr (map (\<lambda>h. last_valid (in_bin (index df) c h)) (bins (index df))))"
  by (rule getcol_mapped) (simp add: resample_last_def)

lemma getcol_shift1:
  "getcol n (shift1 df) = (case getcol n df of Inl e \<Rightarrow> Inl e | Inr c \<Rightarrow> Inr (shift_col c))"
  by (simp add: shift1_def getcol_map_cols)














lemma last_valid_alt:
  "last_valid vs =
     (if filter (\<lambda>v. \<not> isna v) vs = [] then NaN else last (filter (\<lambda>v. \<not> isna v) vs))"
  by (simp add: last_valid_def split: list.splits)


lemma last_valid_none: "last_valid (replicate m NaN) = NaN"
  by (simp add: last_valid_alt isna_def)

lemma in_bin_sorted:
  "sorted ts \<Longrightarrow> length c = length ts \<Longrightarrow>
     in_bin ts c h = map snd (filter (\<lambda>(t, v). hour_of t = h) (zip ts c))"
  by (simp add: in_bin_def sort_zip_sorted)

subsection \<open>Which reading an hour keeps\<close>

lemma in_bin_time_order:
  "in_bin ts c h = map snd (sort_key fst (filter (\<lambda>(t, v). hour_of t = h) (zip ts c)))"
  by (simp add: in_bin_def filter_sort)










subsection \<open>Linear interpolation stays between its end points\<close>

lemma lerp_Fin:
  "x0 < x1 \<Longrightarrow>
     lerp x0 (Fin a) x1 (Fin b) x = Fin ((b - a) / (real x1 - real x0) * (real x - real x0) + a)"
  by (simp add: lerp_def f_sub_def isna_def Let_def)

lemma lerp_between:
  assumes "x0 < x" and "x < x1" and "lo \<le> a" and "a \<le> hi" and "lo \<le> b" and "b \<le> hi"
  shows "\<exists>r. lerp x0 (Fin a) x1 (Fin b) x = Fin r \<and> lo \<le> r \<and> r \<le> hi"
proof -
  define d where "d = real x1 - real x0"
  define k where "k = real x - real x0"
  have d: "0 < d" and k: "0 \<le> k" "k \<le> d"
    using assms(1,2) by (simp_all add: d_def k_def)
  define u where "u = k / d"
  have u: "0 \<le> u" "u \<le> 1"
    using d k by (simp_all add: u_def)
  have eq: "(b - a) / d * k + a = (1 - u) * a + u * b"
    using d by (simp add: u_def field_simps)
  have "(1 - u) * a + u * b \<le> hi"
    by (rule convex_bound_le) (use u assms in simp_all)
  moreover have "lo \<le> (1 - u) * a + u * b"
  proof -
    have "(1 - u) * lo \<le> (1 - u) * a" "u * lo \<le> u * b"
      using u assms by (simp_all add: mult_left_mono)
    then have "(1 - u) * lo + u * lo \<le> (1 - u) * a + u * b"
      by (rule add_mono)
    then show ?thesis by (simp add: algebra_simps)
  qed
  moreover have "lerp x0 (Fin a) x1 (Fin b) x = Fin ((b - a) / d * k + a)"
    unfolding d_def k_def by (rule lerp_Fin) (use assms(1,2) in simp)
  ultimately show ?thesis
    unfolding eq by blast
qed

lemma np_interp_range:
  assumes "\<forall>q\<in>set (p # ps). \<exists>r. snd q = Fin r \<and> lo \<le> r \<and> r \<le> hi"
  shows "\<exists>r. np_interp x p ps = Fin r \<and> lo \<le> r \<and> r \<le> hi"
  using assms
proof (induction ps arbitrary: p)
  case Nil
  then show ?case by (cases p) simp
next
  case (Cons q qs)
  obtain x0 y0 where p: "p = (x0, y0)" by (cases p)
  obtain x1 y1 where q: "q = (x1, y1)" by (cases q)
  from Cons.prems obtain a b where a: "y0 = Fin a" "lo \<le> a" "a \<le> hi"
    and b: "y1 = Fin b" "lo \<le> b" "b \<le> hi"
    by (auto simp: p q)
  show ?case
  proof (cases "x \<le> x0")
    case True
    then show ?thesis using a by (simp add: p q)
  next
    case False
    note left = this
    show ?thesis
    proof (cases "x < x1")
      case True
      with left lerp_between [of x0 x x1 lo a hi b] a b show ?thesis
        by (simp add: p q)
    next
      case False
      have "\<exists>r. np_interp x q qs = Fin r \<and> lo \<le> r \<and> r \<le> hi"
        by (rule Cons.IH) (use Cons.prems in simp)
      with left False show ?thesis by (simp add: p q)
    qed
  qed
qed

lemma interpolate_linear_range:
  assumes "\<forall>v\<in>set c. v = NaN \<or> (\<exists>r. v = Fin r \<and> lo \<le> r \<and> r \<le> hi)"
  shows "\<forall>v\<in>set (interpolate_linear c). v = NaN \<or> (\<exists>r. v = Fin r \<and> lo \<le> r \<and> r \<le> hi)"
proof (cases "filter (\<lambda>(i, v). \<not> isna v) (enumerate 0 c)")
  case Nil
  then show ?thesis using assms by (simp add: interpolate_linear_def)
next
  case (Cons p ps)
  have pts: "\<forall>q\<in>set (p # ps). \<exists>r. snd q = Fin r \<and> lo \<le> r \<and> r \<le> hi"
  proof
    fix q assume "q \<in> set (p # ps)"
    then have "q \<in> set (filter (\<lambda>(i, v). \<not> isna v) (enumerate 0 c))"
      by (simp add: Cons)
    then have "snd q \<in> set c" and "snd q \<noteq> NaN"
      by (auto simp: isna_def in_set_enumerate_eq)
    with assms show "\<exists>r. snd q = Fin r \<and> lo \<le> r \<and> r \<le> hi" by blast
  qed
  show ?thesis
  proof
    fix w assume "w \<in> set (interpolate_linear c)"
    then obtain i v where iv: "(i, v) \<in> set (enumerate 0 c)"
      and w: "w = (if \<not> isna v then v else if i < fst p then NaN else np_interp i p ps)"
      by (auto simp: interpolate_linear_def Cons)
    from iv have "v \<in> set c" by (auto simp: in_set_enumerate_eq)
    with assms np_interp_range [OF pts, of i] w
    show "w = NaN \<or> (\<exists>r. w = Fin r \<and> lo \<le> r \<and> r \<le> hi)"
      by (auto simp: isna_def)
  qed
qed

subsection \<open>The visibility column through the pipeline\<close>

lemma in_bin_subset: "set (in_bin ts c h) \<subseteq> set c"
  by (auto simp: in_bin_def dest: set_zip_rightD)

lemma shift_col_subset: "set (shift_col c) \<subseteq> insert NaN (set c)"
  by (auto simp: shift_col_def dest: in_set_butlastD)

lemma getcol_drop_first:
  "drop_first df = Inr out \<Longrightarrow>
     getcol n out =
       (case getcol n df of Inl e \<Rightarrow> Inl e
        | Inr c \<Rightarrow> Inr (map snd (filter (\<lambda>(t, v). t \<noteq> hd (index df)) (zip (index df) c))))"
  by (rule getcol_mapped) (auto simp: drop_first_def split: list.splits)

lemma getcol_fill_gaps:
  assumes "fill_gaps df = Inr out"
  shows "\<exists>tc. getcol ''HOURLYPressureTendency'' df = Inr tc
      \<and> getcol ''HOURLYPressureTendency'' out = Inr (interpolate_linear (ffill tc))"
    and "n \<noteq> ''HOURLYPressureTendency'' \<Longrightarrow>
      getcol n out = (case getcol n df of Inl e \<Rightarrow> Inl e | Inr c \<Rightarrow> Inr (interpolate_linear c))"
  using assms
  by (auto simp: fill_gaps_def and_then_Inr getcol_map_cols getcol_setcol_same getcol_setcol_other)

lemma getcol_encode_wind:
  assumes "encode_wind df = Inr out"
    and "n \<noteq> ''HOURLYWindDirection''" and "n \<noteq> ''HOURLYWindDirectionSin''"
    and "n \<noteq> ''HOURLYWindDirectionCos''"
  shows "getcol n out = getcol n df"
proof -
  from assms(1) obtain c c1 where
    d: "dropcol ''HOURLYWindDirection''
        (setcol ''HOURLYWindDirectionCos'' (map (\<lambda>x. np_cos (to_radians x)) c1)
          (setcol ''HOURLYWindDirectionSin'' (map (\<lambda>x. np_sin (to_radians x)) c) df)) = Inr out"
    by (auto simp: encode_wind_def and_then_Inr Let_def)
  show ?thesis
    using assms(2-4) by (simp add: getcol_dropcol [OF d] getcol_setcol_other)
qed

lemma getcol_encode_tendency:
  assumes "encode_tendency df = Inr out"
    and "n \<noteq> ''HOURLYPressureTendency''" and "n \<noteq> ''HOURLYPressureTendencyIncr''"
    and "n \<noteq> ''HOURLYPressureTendencyDecr''" and "n \<noteq> ''HOURLYPressureTendencyCons''"
  shows "getcol n out = getcol n df"
proof -
  from assms(1) obtain c c1 c2 where
    d: "dropcol ''HOURLYPressureTendency''
        (setcol ''HOURLYPressureTendencyCons'' (map tendency_cons c2)
          (setcol ''HOURLYPressureTendencyDecr'' (map tendency_decr c1)
            (setcol ''HOURLYPressureTendencyIncr'' (map tendency_incr c) df))) = Inr out"
    by (auto simp: encode_tendency_def and_then_Inr Let_def)
  show ?thesis
    using assms(2-5) by (simp add: getcol_dropcol [OF d] getcol_setcol_other)
qed

lemma null_visibility_col:
  assumes "null_visibility df = Inr out"
  shows "\<exists>c. getcol ''HOURLYVISIBILITY'' out = Inr c
     \<and> (\<forall>v\<in>set c. v = NaN \<or> (\<exists>r. v = Fin r \<and> 0 \<le> r \<and> r \<le> 10))"
proof -
  define g where "g = (\<lambda>v. if f_less (Fin 10) v \<or> f_less v (Fin 0) then NaN else v)"
  from assms obtain c where "out = setcol ''HOURLYVISIBILITY'' (map g c) df"
    by (auto simp: null_visibility_def and_then_Inr g_def)
  then have "getcol ''HOURLYVISIBILITY'' out = Inr (map g c)"
    by (simp add: getcol_setcol_same)
  moreover have "g v = NaN \<or> (\<exists>r. g v = Fin r \<and> 0 \<le> r \<and> r \<le> 10)" for v
    by (cases v) (auto simp: g_def)
  then have "\<forall>w\<in>set (map g c). w = NaN \<or> (\<exists>r. w = Fin r \<and> 0 \<le> r \<and> r \<le> 10)"
    by auto
  ultimately show ?thesis by blast
qed

lemma resampled_values:
  assumes "getcol n df = Inr c" and "getcol n (shift1 (resample_last df)) = Inr c'"
  shows "set c' \<subseteq> insert NaN (set c)"
proof -
  have c': "c' = shift_col (map (\<lambda>h. last_valid (in_bin (index df) c h)) (bins (index df)))"
    using assms by (simp add: getcol_shift1 getcol_resample_last)
  have "last_valid (in_bin (index df) c h) \<in> insert NaN (set c)" for h
    using last_valid_cases [of "in_bin (index df) c h"] in_bin_subset [of "index df" c h]
    by auto
  then have "set (map (\<lambda>h. last_valid (in_bin (index df) c h)) (bins (index df))) \<subseteq> insert NaN (set c)"
    by auto
  with shift_col_subset show ?thesis
    unfolding c' by blast
qed

text \<open>
  C2. In the table that a run writes, every value of the HOURLYVISIBILITY column is
  missing or a number from 0 to 10: line 61 nulls what lies outside (the infinities
  included), resampling and the shift only move values or leave rows missing, and linear
  interpolation yields values between its two end points or repeats the last valid one.
  Finite doubles are taken as the real numbers they denote, interpolation without
  rounding.
\<close>

theorem visibility_bounded:
  assumes "written (main fs parse a) = Some (out, t)"
    and "getcol ''HOURLYVISIBILITY'' t = Inr col"
  shows "\<forall>v\<in>set col. v = NaN \<or> (\<exists>r. v = Fin r \<and> 0 \<le> r \<and> r \<le> 10)"
proof -
  let ?V = "''HOURLYVISIBILITY''"
  let ?ok = "\<lambda>c. \<forall>v\<in>set c. v = NaN \<or> (\<exists>r. v = Fin r \<and> 0 \<le> r \<and> r \<le> 10)"
  from assms(1) have "clean fs parse (filepath a) = Inr t"
    by (auto simp: main_written split: sum.splits)
  then obtain df2 df3 df4 df5 df6 where
    nv: "null_visibility df2 = Inr df3"
    and fg: "fill_gaps (shift1 (resample_last df3)) = Inr df4"
    and dr: "drop_first df4 = Inr df5"
    and ew: "encode_wind df5 = Inr df6"
    and et: "encode_tendency df6 = Inr t"
    by (auto simp: clean_def and_then_Inr)
  from null_visibility_col [OF nv] obtain c3 where c3: "getcol ?V df3 = Inr c3" "?ok c3"
    by blast
  have "getcol ?V df6 = Inr col"
    using getcol_encode_tendency [OF et, of ?V] assms(2) by simp
  then have c5: "getcol ?V df5 = Inr col"
    using getcol_encode_wind [OF ew, of ?V] by simp
  then obtain c4 where c4: "getcol ?V df4 = Inr c4"
    and col: "col = map snd (filter (\<lambda>(t, v). t \<noteq> hd (index df4)) (zip (index df4) c4))"
    by (auto simp: getcol_drop_first [OF dr] split: sum.splits)
  from c4 obtain cr where cr: "getcol ?V (shift1 (resample_last df3)) = Inr cr"
    and c4i: "c4 = interpolate_linear cr"
    by (auto simp: getcol_fill_gaps(2) [OF fg, of ?V] split: sum.splits)
  have "set cr \<subseteq> insert NaN (set c3)"
    by (rule resampled_values [OF c3(1) cr])
  with c3(2) have "?ok cr" by blast
  then have "?ok c4"
    unfolding c4i by (rule interpolate_linear_range)
  moreover have "set col \<subseteq> set c4"
    unfolding col by (auto dest: set_zip_rightD)
  ultimately show ?thesis by blast
qed

lemma example_visibility:
  "getcol ''HOURLYVISIBILITY'' example_cleaned = Inr [Fin 5, Fin (19 / 3), Fin (23 / 3), Fin 9]"
  by (simp add: example_cleaned_def getcol_def)

theorem visibility_bounded_witness:
  "written (main example_fs example_parse \<lparr>filepath = ''jfk_weather.csv'', verbose = False\<rparr>)
     = Some (''jfk_weather_cleaned.csv'', example_cleaned)
   \<and> getcol ''HOURLYVISIBILITY'' example_cleaned = Inr [Fin 5, Fin (19 / 3), Fin (23 / 3), Fin 9]
   \<and> (\<exists>r. Fin (19 / 3) = Fin r \<and> 0 \<le> r \<and> r \<le> 10)"
proof -
  have w: "written (main example_fs example_parse \<lparr>filepath = ''jfk_weather.csv'', verbose = False\<rparr>)
     = Some (''jfk_weather_cleaned.csv'', example_cleaned)"
    by (simp add: main_def example_clean output_path_def split_def)
  from visibility_bounded [OF w example_visibility]
  have "Fin (19 / 3) = NaN \<or> (\<exists>r. Fin (19 / 3) = Fin r \<and> 0 \<le> r \<and> r \<le> 10)"
    by simp
  then show ?thesis
    using w example_visibility by simp
qed

subsection \<open>Forward fill and interpolation, row by row\<close>

lemma interpolate_linear_nth:
  assumes "k < length c"
  shows "interpolate_linear c ! k =
     (case filter (\<lambda>(i, v). \<not> isna v) (enumerate 0 c) of
        [] \<Rightarrow> c ! k
      | p # ps \<Rightarrow> if \<not> isna (c ! k) then c ! k else if k < fst p then NaN else np_interp k p ps)"
  using assms by (simp add: interpolate_linear_def nth_enumerate_eq split: list.splits)

lemma interpolate_linear_nth_gap:
  assumes "filter (\<lambda>(i, v). \<not> isna v) (enumerate 0 c) = p # ps"
    and "k < length c" and "isna (c ! k)" and "fst p < k"
  shows "interpolate_linear c ! k = np_interp k p ps"
  using assms(2-4) by (simp add: interpolate_linear_nth assms(1))






lemma np_interp_skip:
  assumes "\<forall>q\<in>set (p # ps). fst q < x0" and "x0 < x"
  shows "np_interp x p (ps @ (x0, y0) # rest) = np_interp x (x0, y0) rest"
  using assms
proof (induction ps arbitrary: p)
  case Nil
  then show ?case by (cases p) auto
next
  case (Cons q qs)
  obtain i v where p: "p = (i, v)" by (cases p)
  obtain i' v' where q: "q = (i', v')" by (cases q)
  from Cons.prems have "i < x" "i' < x"
    by (auto simp: p q)
  moreover have "np_interp x q (qs @ (x0, y0) # rest) = np_interp x (x0, y0) rest"
    by (rule Cons.IH) (use Cons.prems in simp_all)
  ultimately show ?case
    by (simp add: p q)
qed

lemma filter_enumerate_gap:
  "filter (\<lambda>(i, v). \<not> isna v) (enumerate n (replicate m NaN)) = []"
  by (auto simp: filter_empty_conv in_set_enumerate_eq isna_def)


text \<open>
  After the last valid row there is no second end point: \<open>np.interp\<close> repeats the last
  valid value, so trailing gaps of an interpolated column are filled with it.
\<close>

lemma interpolate_linear_trailing:
  assumes "\<not> isna a" and "t < m"
  shows "interpolate_linear (pre @ a # replicate m NaN) ! (length pre + 1 + t) = a"
proof -
  let ?c = "pre @ a # replicate m NaN"
  let ?k = "length pre + 1 + t"
  let ?P = "\<lambda>(i, v). \<not> isna v"
  have k: "?k < length ?c" using assms(2) by simp
  have ck: "isna (?c ! ?k)"
    using assms(2) by (simp add: nth_append nth_Cons' isna_def)
  have pts: "filter ?P (enumerate 0 ?c) = filter ?P (enumerate 0 pre) @ (length pre, a) # []"
    using assms(1) by (simp add: enumerate_append_eq filter_enumerate_gap)
  have lt: "\<forall>q\<in>set (filter ?P (enumerate 0 pre)). fst q < length pre"
    by (auto simp: in_set_enumerate_eq)
  show ?thesis
  proof (cases "filter ?P (enumerate 0 pre)")
    case Nil
    have f: "filter ?P (enumerate 0 ?c) = (length pre, a) # []"
      unfolding pts Nil by simp
    have "interpolate_linear ?c ! ?k = np_interp ?k (length pre, a) []"
      by (rule interpolate_linear_nth_gap [OF f k ck]) simp
    then show ?thesis by simp
  next
    case (Cons q qs)
    have q: "fst q < length pre" and qs: "\<forall>r\<in>set (q # qs). fst r < length pre"
      using lt by (simp_all add: Cons)
    have f: "filter ?P (enumerate 0 ?c) = q # (qs @ (length pre, a) # [])"
      unfolding pts Cons by simp
    have "interpolate_linear ?c ! ?k = np_interp ?k q (qs @ (length pre, a) # [])"
      by (rule interpolate_linear_nth_gap [OF f k ck]) (use q in simp)
    also have "\<dots> = np_interp ?k (length pre, a) []"
      by (rule np_interp_skip [OF qs]) simp
    finally show ?thesis by simp
  qed
qed


lemma example_infinite_gap:
  "interpolate_linear [NaN, PInf, NaN, Fin 5] = [NaN, PInf, PInf, Fin 5]"
  "interpolate_linear [NaN, PInf, NaN, PInf] = [NaN, PInf, PInf, PInf]"
  by (simp_all add: interpolate_linear_def isna_def lerp_def f_sub_def Let_def signed_inf_def)



subsection \<open>The wind direction features\<close>






end
